theory Spec2Isabelle
  imports Main "HOL-Library.Sublist" "HOL-Library.Word"
begin

section \<open>Strings\<close>

text \<open>
  JavaScript strings are modelled as \<^typ>\<open>string\<close>, a list of 8-bit characters: the
  UTF-8 bytes of the text. Everything the source tests for (the keywords of the
  certificate dump, curve names, object identifiers, white space, digits, separators) is
  ASCII; a character outside ASCII is an opaque byte sequence that is no letter, digit
  or white space.
\<close>

definition toLowerCase_char :: "char \<Rightarrow> char" where
  "toLowerCase_char c =
     (case map_of (zip ''ABCDEFGHIJKLMNOPQRSTUVWXYZ'' ''abcdefghijklmnopqrstuvwxyz'') c of
        Some d \<Rightarrow> d
      | None \<Rightarrow> c)"

definition toUpperCase_char :: "char \<Rightarrow> char" where
  "toUpperCase_char c =
     (case map_of (zip ''abcdefghijklmnopqrstuvwxyz'' ''ABCDEFGHIJKLMNOPQRSTUVWXYZ'') c of
        Some d \<Rightarrow> d
      | None \<Rightarrow> c)"

definition toLowerCase :: "string \<Rightarrow> string" where
  "toLowerCase s = map toLowerCase_char s"

definition toUpperCase :: "string \<Rightarrow> string" where
  "toUpperCase s = map toUpperCase_char s"

text \<open>\<^verbatim>\<open>s.includes(pat)\<close>: \<open>pat\<close> occurs in \<open>s\<close> as a contiguous substring.\<close>

fun includes_str :: "string \<Rightarrow> string \<Rightarrow> bool" where
  "includes_str [] pat = (pat = [])"
| "includes_str (c # cs) pat = (prefix pat (c # cs) \<or> includes_str cs pat)"

definition startsWith :: "string \<Rightarrow> string \<Rightarrow> bool" where
  "startsWith s pat = prefix pat s"

text \<open>The regular-expression classes \<^verbatim>\<open>\s\<close>, \<^verbatim>\<open>\d\<close> and the line terminators that
  \<^verbatim>\<open>.\<close> excludes.\<close>

definition LF :: char where
  "LF = CHR 0x0A"

definition isSpace :: "char \<Rightarrow> bool" where
  "isSpace c = (c \<in> set [CHR 0x09, CHR 0x0A, CHR 0x0B, CHR 0x0C, CHR 0x0D, CHR 0x20])"

definition isDigit :: "char \<Rightarrow> bool" where
  "isDigit c = (c \<in> set ''0123456789'')"

definition isLineTerminator :: "char \<Rightarrow> bool" where
  "isLineTerminator c = (c = CHR 0x0A \<or> c = CHR 0x0D)"

definition trim :: "string \<Rightarrow> string" where
  "trim s = rev (dropWhile isSpace (rev (dropWhile isSpace s)))"

text \<open>\<^verbatim>\<open>s.split(sep)\<close> for a non-empty separator: the pieces between the occurrences of
  \<open>sep\<close>, found from the left; always at least one piece.\<close>

function split_from :: "string \<Rightarrow> string \<Rightarrow> string \<Rightarrow> string list" where
  "split_from sep acc [] = [acc]"
| "split_from sep acc (c # cs) =
     (if sep \<noteq> [] \<and> prefix sep (c # cs)
      then acc # split_from sep [] (drop (length sep) (c # cs))
      else split_from sep (acc @ [c]) cs)"
  by pat_completeness auto
termination
  by (relation "measure (\<lambda>(sep, acc, s). length s)") (auto simp: neq_Nil_conv)

definition split :: "string \<Rightarrow> string \<Rightarrow> string list" where
  "split s sep = split_from sep [] s"

text \<open>\<^verbatim>\<open>parseInt\<close> on a string of decimal digits.\<close>

definition parseInt :: "string \<Rightarrow> nat" where
  "parseInt ds = foldl (\<lambda>n c. 10 * n + (of_char c - 48)) 0 ds"

subsection \<open>Regular expressions, as backtracking matchers\<close>

text \<open>
  A pattern is written in continuation-passing style, one combinator per piece of
  the pattern: a matcher takes the rest of the pattern (a continuation on the rest of the
  input) and the input, and returns the first result in the order in which a backtracking
  engine tries the alternatives (a greedy quantifier the longest repetition first).
  \<open>search\<close> is the unanchored match: the leftmost start position that matches. All the
  patterns of the source but the PEM block pattern carry the \<^verbatim>\<open>i\<close> flag, so \<open>lit\<close> compares
  without regard to letter case.
\<close>

definition lit :: "string \<Rightarrow> (string \<Rightarrow> 'a option) \<Rightarrow> string \<Rightarrow> 'a option" where
  "lit pat k s =
     (if length pat \<le> length s \<and> toLowerCase (take (length pat) s) = toLowerCase pat
      then k (drop (length pat) s) else None)"

fun star :: "(char \<Rightarrow> bool) \<Rightarrow> (string \<Rightarrow> 'a option) \<Rightarrow> string \<Rightarrow> 'a option" where
  "star p k [] = k []"
| "star p k (c # cs) =
     (if p c then (case star p k cs of Some r \<Rightarrow> Some r | None \<Rightarrow> k (c # cs))
      else k (c # cs))"

definition plus :: "(char \<Rightarrow> bool) \<Rightarrow> (string \<Rightarrow> 'a option) \<Rightarrow> string \<Rightarrow> 'a option" where
  "plus p k s = (case s of [] \<Rightarrow> None | c # cs \<Rightarrow> if p c then star p k cs else None)"

text \<open>A capturing group around a greedy repetition: the continuation receives the
  captured text, collected in \<open>acc\<close>.\<close>

fun star_cap ::
  "(char \<Rightarrow> bool) \<Rightarrow> (string \<Rightarrow> string \<Rightarrow> 'a option) \<Rightarrow> string \<Rightarrow> string \<Rightarrow> 'a option" where
  "star_cap p k acc [] = k acc []"
| "star_cap p k acc (c # cs) =
     (if p c
      then (case star_cap p k (acc @ [c]) cs of Some r \<Rightarrow> Some r | None \<Rightarrow> k acc (c # cs))
      else k acc (c # cs))"

definition plus_cap ::
  "(char \<Rightarrow> bool) \<Rightarrow> (string \<Rightarrow> string \<Rightarrow> 'a option) \<Rightarrow> string \<Rightarrow> 'a option" where
  "plus_cap p k s = (case s of [] \<Rightarrow> None | c # cs \<Rightarrow> if p c then star_cap p k [c] cs else None)"

definition opt_char :: "char \<Rightarrow> (string \<Rightarrow> 'a option) \<Rightarrow> string \<Rightarrow> 'a option" where
  "opt_char c k s =
     (case s of
        [] \<Rightarrow> k []
      | d # ds \<Rightarrow>
          if d = c then (case k ds of Some r \<Rightarrow> Some r | None \<Rightarrow> k (d # ds)) else k (d # ds))"

fun search :: "(string \<Rightarrow> 'a option) \<Rightarrow> string \<Rightarrow> 'a option" where
  "search m [] = m []"
| "search m (c # cs) = (case m (c # cs) of Some r \<Rightarrow> Some r | None \<Rightarrow> search m cs)"

text \<open>The end of a pattern whose value is its one capture group.\<close>

definition captured :: "string \<Rightarrow> string \<Rightarrow> string option" where
  "captured cap rest = Some cap"

text \<open>\<^verbatim>\<open>/KEY\s*(\S+)/i\<close>, the shape of most field patterns of the dump.\<close>

definition match_word_after :: "string \<Rightarrow> string \<Rightarrow> string option" where
  "match_word_after key text =
     search (lit key (star isSpace (plus_cap (\<lambda>c. \<not> isSpace c) captured))) text"

text \<open>\<^verbatim>\<open>/KEY\s*(.+)/i\<close>: the rest of the line after the key.\<close>

definition match_line_after :: "string \<Rightarrow> string \<Rightarrow> string option" where
  "match_line_after key text =
     search (lit key (star isSpace (plus_cap (\<lambda>c. \<not> isLineTerminator c) captured))) text"

text \<open>\<^verbatim>\<open>/KEY\s*=\s*([^,]+)/i\<close>: one attribute of a distinguished name.\<close>

definition match_attr :: "string \<Rightarrow> string \<Rightarrow> string option" where
  "match_attr key dn =
     search (lit key (star isSpace (lit ''=''
       (star isSpace (plus_cap (\<lambda>c. c \<noteq> CHR '','') captured))))) dn"

section \<open>The certificate parser (certParser.js)\<close>

subsection \<open>The platform's certificate object\<close>

text \<open>
  The object that the TLS stack returns for a certificate. A field that the
  object may lack is an option (\<open>None\<close> for \<^verbatim>\<open>undefined\<close>). The attributes of a
  distinguished name are taken to be single-valued strings. \<open>issuerCertificate\<close> is a
  reference to another certificate object (an address of the session's object store), so
  that a certificate can be its own issuer and issuer links can form a cycle. The
  attribute \<^verbatim>\<open>X\<close> of a subject or issuer object is the field \<open>attr_X\<close>. The validity
  dates (\<open>formatDate\<close>, \<open>formatCertDate\<close>) and the raw encoding pass through the
  platform's date and buffer types and are left out of the records; the dates of a
  certificate that the platform has parsed are valid dates, on which \<open>formatDate\<close> does
  not throw, and nothing below depends on them.
\<close>

record x509name =
  attr_CN :: "string option"
  attr_O :: "string option"
  attr_OU :: "string option"
  attr_C :: "string option"
  attr_ST :: "string option"
  attr_S :: "string option"
  attr_L :: "string option"
  attr_businessCategory :: "string option"
  attr_serialNumber :: "string option"

type_synonym addr = nat

record peer_cert =
  subject :: "x509name option"
  issuer :: "x509name option"
  infoAccess :: "(string \<times> string list) list option"
  asn1Curve :: "string option"
  bits :: "nat option"
  modulus :: "string option"
  pubkey :: "8 word list option"
  serialNumber :: "string option"
  fingerprint :: "string option"
  fingerprint256 :: "string option"
  subjectaltname :: "string option"
  version :: "nat option"
  issuerCertificate :: "addr option"

text \<open>Truthiness of an optional string, and \<^verbatim>\<open>x || d\<close> on optional strings and numbers.\<close>

fun truthy :: "string option \<Rightarrow> bool" where
  "truthy None = False"
| "truthy (Some s) = (s \<noteq> [])"

fun str_or :: "string option \<Rightarrow> string \<Rightarrow> string" where
  "str_or None d = d"
| "str_or (Some s) d = (if s \<noteq> [] then s else d)"

fun num_or :: "nat option \<Rightarrow> nat \<Rightarrow> nat" where
  "num_or None d = d"
| "num_or (Some n) d = (if n \<noteq> 0 then n else d)"

subsection \<open>The certificate record\<close>

datatype key_type = RSA | ECC | SM2 | Unknown

datatype level = DV | OV | EV

datatype chain_position = Leaf | Intermediate | Root | SelfSigned

text \<open>An entry of \<open>subjectAltNames\<close>: the session path produces objects
  \<^verbatim>\<open>{type, value}\<close>, the toolkit path plain strings.\<close>

datatype altname = TypedName string "string option" | Name string

record dn =
  commonName :: "string option"
  organization :: "string option"
  organizationalUnit :: "string option"
  country :: "string option"
  state :: "string option"
  locality :: "string option"

record public_key =
  type :: key_type
  algorithm :: string
  curve :: "string option"
  bits :: nat

text \<open>The display texts of a record (\<open>typeName\<close>, \<open>description\<close>, \<open>nameCN\<close>, \<open>color\<close>) are
  constants of each case and are left out. \<open>type\<close> is set by the chain code after
  parsing; \<open>isGM\<close> exists on the toolkit path only.\<close>

record certificate =
  subject :: dn
  issuer :: dn
  serialNumber :: string
  fingerprint :: string
  fingerprint256 :: string
  subjectAltNames :: "altname list"
  bits :: nat
  publicKey :: public_key
  signatureAlgorithm :: string
  validationLevel :: level
  version :: nat
  type :: "chain_position option"
  isGM :: "bool option"

subsection \<open>Key type\<close>

definition SM2_CURVES :: "string list" where
  "SM2_CURVES = [''SM2'', ''sm2p256v1'', ''1.2.156.10197.1.301'']"

definition ECC_CURVES :: "(string \<times> string) list" where
  "ECC_CURVES =
     [(''prime256v1'', ''P-256 (secp256r1)''),
      (''secp256r1'', ''P-256 (secp256r1)''),
      (''secp384r1'', ''P-384 (secp384r1)''),
      (''secp521r1'', ''P-521 (secp521r1)''),
      (''secp256k1'', ''secp256k1 (Bitcoin)''),
      (''X25519'', ''X25519''),
      (''Ed25519'', ''Ed25519''),
      (''X448'', ''X448''),
      (''Ed448'', ''Ed448'')]"

definition is_sm2_curve :: "string \<Rightarrow> bool" where
  "is_sm2_curve name =
     list_ex (\<lambda>sm2. includes_str (toLowerCase name) (toLowerCase sm2)) SM2_CURVES"

definition curve_bits :: "string \<Rightarrow> nat" where
  "curve_bits name =
     (if includes_str name ''384'' then 384
      else if includes_str name ''521'' then 521
      else if includes_str name ''448'' then 448
      else 256)"

definition parsePublicKeyAlgorithm :: "peer_cert \<Rightarrow> public_key" where
  "parsePublicKeyAlgorithm cert =
     (let curve = str_or (asn1Curve cert) [] in
      if curve \<noteq> [] then
        (if is_sm2_curve curve
         then \<lparr> public_key.type = SM2, algorithm = ''SM2'', curve = Some curve, bits = 256 \<rparr>
         else \<lparr> public_key.type = ECC, algorithm = ''ECDSA'',
                curve = Some (case map_of ECC_CURVES curve of Some n \<Rightarrow> n | None \<Rightarrow> curve),
                bits = num_or (peer_cert.bits cert) (curve_bits curve) \<rparr>)
      else if truthy (modulus cert) then
        \<lparr> public_key.type = RSA, algorithm = ''RSA'', curve = None,
          bits = num_or (peer_cert.bits cert) (length (str_or (modulus cert) []) * 4) \<rparr>
      else if (case pubkey cert of
                 None \<Rightarrow> False
               | Some key \<Rightarrow> length key = 32 \<or> length key = 44) then
        \<lparr> public_key.type = ECC, algorithm = ''Ed25519'', curve = Some ''Ed25519'', bits = 256 \<rparr>
      else
        \<lparr> public_key.type = Unknown, algorithm = ''Unknown'', curve = None,
          bits = num_or (peer_cert.bits cert) 0 \<rparr>)"

subsection \<open>Signature algorithm\<close>

definition parseSignatureAlgorithm :: "peer_cert \<Rightarrow> string" where
  "parseSignatureAlgorithm cert =
     (case public_key.type (parsePublicKeyAlgorithm cert) of
        SM2 \<Rightarrow> ''SM3withSM2''
      | ECC \<Rightarrow> ''ECDSA with SHA-256''
      | RSA \<Rightarrow> ''SHA-256 with RSA''
      | Unknown \<Rightarrow> ''Unknown'')"

subsection \<open>Validation level\<close>

definition EV_OIDS :: "string list" where
  "EV_OIDS =
     [''2.23.140.1.1'',
      ''1.3.6.1.4.1.34697.2.1'',
      ''1.3.6.1.4.1.6449.1.2.1.5.1'',
      ''2.16.840.1.114412.2.1'',
      ''2.16.840.1.114028.10.1.2'',
      ''1.3.6.1.4.1.14370.1.6'',
      ''1.3.6.1.4.1.4146.1.1'',
      ''2.16.840.1.114413.1.7.23.3'',
      ''2.16.840.1.114414.1.7.23.3'',
      ''2.16.756.1.89.1.2.1.1'',
      ''1.3.6.1.4.1.8024.0.2.100.1.2'',
      ''1.2.616.1.113527.2.5.1.1'',
      ''1.3.6.1.4.1.23223.1.1.1'',
      ''2.16.840.1.113733.1.7.23.6'',
      ''2.16.840.1.114404.1.1.2.4.1'',
      ''1.3.6.1.4.1.17326.10.14.2.1.2'',
      ''1.3.6.1.4.1.22234.2.5.2.3.1'']"

text \<open>\<^verbatim>\<open>JSON.stringify\<close> of the \<open>infoAccess\<close> object, whose values are arrays of strings.\<close>

definition hex_digit :: "nat \<Rightarrow> char" where
  "hex_digit n = ''0123456789abcdef'' ! (n mod 16)"

definition json_escape :: "char \<Rightarrow> string" where
  "json_escape c =
     (if c = CHR 0x22 then [CHR 0x5C, CHR 0x22]
      else if c = CHR 0x5C then [CHR 0x5C, CHR 0x5C]
      else if c = CHR 0x08 then [CHR 0x5C, CHR ''b'']
      else if c = CHR 0x0C then [CHR 0x5C, CHR ''f'']
      else if c = CHR 0x0A then [CHR 0x5C, CHR ''n'']
      else if c = CHR 0x0D then [CHR 0x5C, CHR ''r'']
      else if c = CHR 0x09 then [CHR 0x5C, CHR ''t'']
      else if (of_char c :: nat) < 32
        then [CHR 0x5C, CHR ''u'', CHR ''0'', CHR ''0'',
              hex_digit (of_char c div 16), hex_digit (of_char c)]
      else [c])"

definition json_string :: "string \<Rightarrow> string" where
  "json_string s = [CHR 0x22] @ concat (map json_escape s) @ [CHR 0x22]"

fun join :: "string \<Rightarrow> string list \<Rightarrow> string" where
  "join sep [] = []"
| "join sep [x] = x"
| "join sep (x # y # ys) = x @ sep @ join sep (y # ys)"

definition JSON_stringify :: "(string \<times> string list) list \<Rightarrow> string" where
  "JSON_stringify obj =
     ''{'' @ join '','' (map (\<lambda>(k, vs).
        json_string k @ '':'' @ ''['' @ join '','' (map json_string vs) @ '']'') obj) @ ''}''"

definition parseValidationLevel :: "peer_cert \<Rightarrow> level" where
  "parseValidationLevel cert =
     (let subject = (case peer_cert.subject cert of
                       Some s \<Rightarrow> s
                     | None \<Rightarrow> \<lparr> attr_CN = None, attr_O = None, attr_OU = None, attr_C = None,
                                 attr_ST = None, attr_S = None, attr_L = None,
                                 attr_businessCategory = None, attr_serialNumber = None \<rparr>);
          infoAccess = (case infoAccess cert of Some ia \<Rightarrow> ia | None \<Rightarrow> []);
          infoAccessStr = JSON_stringify infoAccess;
          hasEVOID = list_ex (\<lambda>oid. includes_str infoAccessStr oid) EV_OIDS;
          hasFullOrgInfo = (truthy (attr_O subject) \<and> truthy (attr_L subject) \<and>
             (truthy (attr_ST subject) \<or> truthy (attr_S subject)) \<and> truthy (attr_C subject));
          hasEVFields = (truthy (attr_businessCategory subject) \<or>
             truthy (attr_serialNumber subject))
      in if hasEVOID \<or> (hasFullOrgInfo \<and> hasEVFields) then EV
         else if truthy (attr_O subject) then OV
         else DV)"

subsection \<open>Subject, alternative names, the whole record\<close>

definition parseSubject :: "x509name option \<Rightarrow> dn" where
  "parseSubject name =
     (case name of
        None \<Rightarrow> \<lparr> commonName = None, organization = None, organizationalUnit = None,
                  country = None, state = None, locality = None \<rparr>
      | Some s \<Rightarrow>
          \<lparr> commonName = Some (str_or (attr_CN s) []),
            organization = Some (str_or (attr_O s) []),
            organizationalUnit = Some (str_or (attr_OU s) []),
            country = Some (str_or (attr_C s) []),
            state = Some (str_or (attr_ST s) []),
            locality = Some (str_or (attr_L s) []) \<rparr>)"

text \<open>\<^verbatim>\<open>const [type, value] = name.split(':')\<close>: the first two pieces; the second is
  \<^verbatim>\<open>undefined\<close> when the entry has no colon.\<close>

definition parseAltNames :: "string option \<Rightarrow> altname list" where
  "parseAltNames altnames =
     (if \<not> truthy altnames then []
      else map (\<lambda>name.
             (case split name '':'' of
                [] \<Rightarrow> TypedName [] None
              | [t] \<Rightarrow> TypedName t None
              | t # v # _ \<Rightarrow> TypedName t (Some v)))
           (split (str_or altnames []) '', ''))"

definition parseCertificate :: "peer_cert \<Rightarrow> certificate" where
  "parseCertificate cert =
     (let publicKeyInfo = parsePublicKeyAlgorithm cert;
          signatureInfo = parseSignatureAlgorithm cert;
          validationLevel = parseValidationLevel cert
      in \<lparr> certificate.subject = parseSubject (peer_cert.subject cert),
           issuer = parseSubject (peer_cert.issuer cert),
           serialNumber = str_or (peer_cert.serialNumber cert) [],
           fingerprint = str_or (peer_cert.fingerprint cert) [],
           fingerprint256 = str_or (peer_cert.fingerprint256 cert) [],
           subjectAltNames = parseAltNames (subjectaltname cert),
           bits = num_or (peer_cert.bits cert) (public_key.bits publicKeyInfo),
           publicKey = publicKeyInfo,
           signatureAlgorithm = signatureInfo,
           validationLevel = validationLevel,
           version = num_or (peer_cert.version cert) 0,
           type = None,
           isGM = None \<rparr>)"

section \<open>The TLS client (tlsClient.js)\<close>

subsection \<open>Errors\<close>

text \<open>Every error that the module raises, and the platform's error of a toolkit
  process that fails to start. \<open>message\<close> is the text of the error, as UTF-8 bytes.\<close>

datatype error =
    ConnectFailed
  | ConnectTimeout
  | NoCertificateInfo
  | CommandTimeout
  | SpawnError string
  | RequestFailed

fun message :: "error \<Rightarrow> string" where
  "message ConnectFailed =
     [CHR 0xE6, CHR 0x97, CHR 0xA0, CHR 0xE6, CHR 0xB3, CHR 0x95, CHR 0xE5, CHR 0xBB, CHR 0xBA,
      CHR 0xE7, CHR 0xAB, CHR 0x8B, CHR 0x20, CHR 0x54, CHR 0x4C, CHR 0x53, CHR 0x20, CHR 0xE8,
      CHR 0xBF, CHR 0x9E, CHR 0xE6, CHR 0x8E, CHR 0xA5]"
| "message ConnectTimeout =
     [CHR 0xE8, CHR 0xBF, CHR 0x9E, CHR 0xE6, CHR 0x8E, CHR 0xA5, CHR 0xE8, CHR 0xB6, CHR 0x85,
      CHR 0xE6, CHR 0x97, CHR 0xB6]"
| "message NoCertificateInfo =
     [CHR 0xE6, CHR 0x97, CHR 0xA0, CHR 0xE6, CHR 0xB3, CHR 0x95, CHR 0xE8, CHR 0x8E, CHR 0xB7,
      CHR 0xE5, CHR 0x8F, CHR 0x96, CHR 0xE8, CHR 0xAF, CHR 0x81, CHR 0xE4, CHR 0xB9, CHR 0xA6,
      CHR 0xE4, CHR 0xBF, CHR 0xA1, CHR 0xE6, CHR 0x81, CHR 0xAF]"
| "message CommandTimeout =
     [CHR 0xE5, CHR 0x91, CHR 0xBD, CHR 0xE4, CHR 0xBB, CHR 0xA4, CHR 0xE6, CHR 0x89, CHR 0xA7,
      CHR 0xE8, CHR 0xA1, CHR 0x8C, CHR 0xE8, CHR 0xB6, CHR 0x85, CHR 0xE6, CHR 0x97, CHR 0xB6]"
| "message (SpawnError m) = m"
| "message RequestFailed =
     [CHR 0xE6, CHR 0x97, CHR 0xA0, CHR 0xE6, CHR 0xB3, CHR 0x95, CHR 0xE8, CHR 0x8E, CHR 0xB7,
      CHR 0xE5, CHR 0x8F, CHR 0x96, CHR 0xE8, CHR 0xAF, CHR 0x81, CHR 0xE4, CHR 0xB9, CHR 0xA6,
      CHR 0xE4, CHR 0xBF, CHR 0xA1, CHR 0xE6, CHR 0x81, CHR 0xAF, CHR 0xEF, CHR 0xBC, CHR 0x8C,
      CHR 0xE8, CHR 0xAF, CHR 0xB7, CHR 0xE6, CHR 0xA3, CHR 0x80, CHR 0xE6, CHR 0x9F, CHR 0xA5,
      CHR 0xE5, CHR 0x9F, CHR 0x9F, CHR 0xE5, CHR 0x90, CHR 0x8D, CHR 0xE6, CHR 0x98, CHR 0xAF,
      CHR 0xE5, CHR 0x90, CHR 0xA6, CHR 0xE6, CHR 0xAD, CHR 0xA3, CHR 0xE7, CHR 0xA1, CHR 0xAE]"

subsection \<open>Connecting under the compatibility profiles\<close>

record tls_config =
  minVersion :: string
  maxVersion :: string
  ciphers :: "string option"

definition TLS_CONFIGS :: "tls_config list" where
  "TLS_CONFIGS =
     [\<lparr> minVersion = ''TLSv1.2'', maxVersion = ''TLSv1.3'', ciphers = None \<rparr>,
      \<lparr> minVersion = ''TLSv1'', maxVersion = ''TLSv1.3'', ciphers = None \<rparr>,
      \<lparr> minVersion = ''TLSv1.2'', maxVersion = ''TLSv1.3'', ciphers = Some ''ALL'' \<rparr>]"

record cipher_info =
  name :: string
  standardName :: "string option"
  version :: "string option"

text \<open>
  An open socket, as far as the module reads it: the peer certificate with its issuer
  links (\<open>getPeerCertificate(true)\<close>; \<open>None\<close> when the platform returns no certificate,
  that is \<^verbatim>\<open>null\<close> or the empty object), the store of the certificate objects, and the
  session's verdict, protocol and cipher.
\<close>

record tls_socket =
  peerCertificate :: "addr option"
  objects :: "addr \<Rightarrow> peer_cert"
  authorized :: bool
  authorizationError :: "string option"
  getProtocol :: "string option"
  getCipher :: cipher_info

text \<open>
  What one call of \<^verbatim>\<open>tls.connect\<close> leads to: the connect callback runs, or the socket
  emits \<^verbatim>\<open>error\<close>, or it emits \<^verbatim>\<open>timeout\<close>. The network is a function from the
  host, the port, the timeout and the profile to this outcome.
\<close>

datatype attempt = Connected tls_socket | SocketError | SocketTimeout

type_synonym network = "string \<Rightarrow> nat \<Rightarrow> nat \<Rightarrow> tls_config \<Rightarrow> attempt"

function tryConnect :: "network \<Rightarrow> string \<Rightarrow> nat \<Rightarrow> nat \<Rightarrow> nat \<Rightarrow> error + tls_socket" where
  "tryConnect connect host portno timeout configIndex =
     (if configIndex \<ge> length TLS_CONFIGS then Inl ConnectFailed
      else
        (case connect host portno timeout (TLS_CONFIGS ! configIndex) of
           Connected socket \<Rightarrow> Inr socket
         | SocketError \<Rightarrow> tryConnect connect host portno timeout (configIndex + 1)
         | SocketTimeout \<Rightarrow> Inl ConnectTimeout))"
  by pat_completeness auto
termination
  by (relation "measure (\<lambda>(connect, host, portno, timeout, configIndex).
        length TLS_CONFIGS - configIndex)") auto

subsection \<open>Walking the issuer chain of a session\<close>

text \<open>
  The \<^verbatim>\<open>while\<close> loop of \<open>getCertificateChain\<close>: \<open>cert\<close> is the current certificate
  object (\<open>None\<close> when the issuer link is absent), \<open>seen\<close> the set of fingerprints,
  \<open>chain\<close> the list \<open>certificates\<close> built so far. The list grows with every round and the
  loop leaves when it is longer than 10, which is the measure of termination.
\<close>

function walk ::
  "(addr \<Rightarrow> peer_cert) \<Rightarrow> addr option \<Rightarrow> string option set \<Rightarrow> certificate list
     \<Rightarrow> certificate list" where
  "walk store cert seen chain =
     (case cert of
        None \<Rightarrow> chain
      | Some a \<Rightarrow>
          if peer_cert.fingerprint256 (store a) \<in> seen then chain
          else
            (let parsedCert = parseCertificate (store a);
                 position =
                   (if length chain = 0 then Leaf
                    else if issuerCertificate (store a) = Some a
                            \<or> issuerCertificate (store a) = None then Root
                    else Intermediate);
                 chain' = chain @ [parsedCert\<lparr> type := Some position \<rparr>]
             in if length chain' > 10 then chain'
                else walk store (issuerCertificate (store a))
                       (insert (peer_cert.fingerprint256 (store a)) seen) chain'))"
  by pat_completeness auto
termination
  by (relation "measure (\<lambda>(store, cert, seen, chain). 11 - length chain)") auto

subsection \<open>The result of a probe\<close>

text \<open>\<open>isGMSSL\<close>, \<open>fallback\<close> and \<open>fallbackReason\<close> are options: \<open>None\<close> when the
  returned object has no such field.\<close>

record chain_result =
  domain :: string
  port :: nat
  certificates :: "certificate list"
  isValid :: bool
  isSelfSigned :: bool
  isGMSSL :: "bool option"
  error :: "string option"
  protocol :: "string option"
  cipher :: cipher_info
  fallback :: "bool option"
  fallbackReason :: "string option"

text \<open>The self-signed test shared by both paths: exactly one certificate, whose subject
  and issuer have the same \<open>commonName\<close>.\<close>

definition single_self_signed :: "certificate list \<Rightarrow> bool" where
  "single_self_signed cs =
     (case cs of
        [c] \<Rightarrow> commonName (certificate.subject c) = commonName (certificate.issuer c)
      | _ \<Rightarrow> False)"

definition mark_self_signed :: "certificate list \<Rightarrow> certificate list" where
  "mark_self_signed cs =
     (if single_self_signed cs then cs[0 := (cs ! 0)\<lparr> type := Some SelfSigned \<rparr>] else cs)"

definition getCertificateChain :: "network \<Rightarrow> string \<Rightarrow> nat \<Rightarrow> nat \<Rightarrow> error + chain_result" where
  "getCertificateChain connect host portno timeout =
     (case tryConnect connect host portno timeout 0 of
        Inl e \<Rightarrow> Inl e
      | Inr socket \<Rightarrow>
          (case peerCertificate socket of
             None \<Rightarrow> Inl NoCertificateInfo
           | Some peer \<Rightarrow>
               (let chain = walk (objects socket) (Some peer) {} []
                in Inr \<lparr> domain = host,
                         port = portno,
                         certificates = mark_self_signed chain,
                         isValid = authorized socket,
                         isSelfSigned = single_self_signed chain,
                         isGMSSL = None,
                         error = (if truthy (authorizationError socket)
                                  then authorizationError socket else None),
                         protocol = getProtocol socket,
                         cipher = getCipher socket,
                         fallback = None,
                         fallbackReason = None \<rparr>)))"

subsection \<open>The external toolkit\<close>

text \<open>
  \<open>execOpenSSL\<close> runs the toolkit and resolves with its exit code and output, or
  rejects (the process does not start, or the timeout expires). The three command lines
  that the module builds are the constructors of \<open>invocation\<close>: the session client in
  the national transport mode, the session client in the generic mode, and the decoder
  of one certificate, which reads the PEM block on its standard input.
\<close>

record exec_result =
  code :: "int option"
  stdout :: string
  stderr :: string

datatype invocation = SClientNTLS string nat | SClient string nat | X509Text string

type_synonym toolkit = "invocation \<Rightarrow> error + exec_result"

subsection \<open>Parsing the decoded text of one certificate\<close>

definition parseDNFromText :: "string \<Rightarrow> dn" where
  "parseDNFromText text =
     (if text = [] then
        \<lparr> commonName = Some [], organization = None, organizationalUnit = None,
          country = None, state = None, locality = None \<rparr>
      else
        (let trimmed = (\<lambda>m. case m of None \<Rightarrow> [] | Some v \<Rightarrow> trim v);
             cn = trimmed (match_attr ''CN'' text);
             org = trimmed (match_attr ''O'' text);
             c = trimmed (match_attr ''C'' text);
             ou = trimmed (match_attr ''OU'' text)
         in \<lparr> commonName = Some (if cn \<noteq> [] then cn else if org \<noteq> [] then org else ou),
              organization = Some org,
              organizationalUnit = None,
              country = Some c,
              state = None,
              locality = None \<rparr>))"

text \<open>The subject or issuer when the dump has no such line.\<close>

definition unknown_dn :: dn where
  "unknown_dn =
     \<lparr> commonName = Some ''Unknown'', organization = None, organizationalUnit = None,
       country = None, state = None, locality = None \<rparr>"

text \<open>\<^verbatim>\<open>/Serial Number:\s*\n?\s*([a-f0-9:]+)/i\<close>\<close>

definition match_serial :: "string \<Rightarrow> string option" where
  "match_serial text =
     search (lit ''Serial Number:'' (star isSpace (opt_char LF (star isSpace
       (plus_cap (\<lambda>c. c \<in> set ''abcdefABCDEF0123456789:'') captured))))) text"

text \<open>\<^verbatim>\<open>/sha256 Fingerprint=([A-F0-9:]+)/i\<close>\<close>

definition match_fingerprint :: "string \<Rightarrow> string option" where
  "match_fingerprint text =
     search (lit ''sha256 Fingerprint=''
       (plus_cap (\<lambda>c. c \<in> set ''abcdefABCDEF0123456789:'') captured)) text"

text \<open>\<^verbatim>\<open>/Public-Key:\s*\((\d+)\s*bit/i\<close>\<close>

definition match_key_size :: "string \<Rightarrow> string option" where
  "match_key_size text =
     search (lit ''Public-Key:'' (star isSpace (lit ''(''
       (plus_cap isDigit (\<lambda>cap. star isSpace (lit ''bit'' (captured cap))))))) text"

text \<open>\<^verbatim>\<open>/X509v3 Subject Alternative Name:[^\n]*\n\s*([^\n]+)/i\<close>\<close>

definition match_san :: "string \<Rightarrow> string option" where
  "match_san text =
     search (lit ''X509v3 Subject Alternative Name:'' (star (\<lambda>c. c \<noteq> LF) (lit [LF]
       (star isSpace (plus_cap (\<lambda>c. c \<noteq> LF) captured))))) text"

text \<open>The alternative names of the matched line: the comma-separated entries that start
  with \<^verbatim>\<open>dns:\<close> in any letter case, without that prefix, the empty ones dropped.\<close>

definition parse_san_line :: "string \<Rightarrow> string list" where
  "parse_san_line line =
     filter (\<lambda>s. s \<noteq> [])
       (map (\<lambda>s. trim (if startsWith (toLowerCase s) ''dns:'' then drop 4 s else s))
         (filter (\<lambda>s. startsWith (toLowerCase s) ''dns:'')
           (map trim (split line '',''))))"

text \<open>The body of \<open>parsePEMCertificate\<close> once the decoder has answered: \<open>text\<close> is its
  standard output followed by its standard error.\<close>

definition parsePEMCertificate_text :: "string \<Rightarrow> certificate" where
  "parsePEMCertificate_text text =
     (let subject = (case match_line_after ''Subject:'' text of
                       Some m \<Rightarrow> parseDNFromText m | None \<Rightarrow> unknown_dn);
          issuer = (case match_line_after ''Issuer:'' text of
                      Some m \<Rightarrow> parseDNFromText m | None \<Rightarrow> unknown_dn);
          serialNumber = (case match_serial text of
                            Some m \<Rightarrow> toUpperCase (filter (\<lambda>c. c \<noteq> CHR '':'') m)
                          | None \<Rightarrow> []);
          fingerprint256 = (case match_fingerprint text of Some m \<Rightarrow> m | None \<Rightarrow> []);
          keySizeMatch = match_key_size text;
          curve = (case match_word_after ''ASN1 OID:'' text of Some m \<Rightarrow> m | None \<Rightarrow> []);
          pubKeyAlgo = (case match_word_after ''Public Key Algorithm:'' text of
                          Some m \<Rightarrow> m | None \<Rightarrow> []);
          isGM = (includes_str (toLowerCase pubKeyAlgo) ''sm2'' \<or>
                  includes_str (toLowerCase curve) ''sm2'' \<or>
                  includes_str (toLowerCase text) ''sm2p256v1'' \<or>
                  includes_str (toLowerCase text) ''sm2-with-sm3'');
          isECC = (\<not> isGM \<and> (includes_str pubKeyAlgo ''EC'' \<or>
                                 includes_str (toLowerCase pubKeyAlgo) ''ec''));
          bits = (case keySizeMatch of
                    Some m \<Rightarrow> parseInt m
                  | None \<Rightarrow> if isGM then 256 else 2048);
          signatureAlgorithm = (case match_word_after ''Signature Algorithm:'' text of
                                  Some m \<Rightarrow> m | None \<Rightarrow> []);
          subjectAltNames = (case match_san text of
                               Some m \<Rightarrow> map Name (parse_san_line m)
                             | None \<Rightarrow> []);
          publicKey =
            (if isGM then
               \<lparr> public_key.type = SM2, algorithm = ''SM2'',
                 curve = Some (if curve \<noteq> [] then curve else ''sm2p256v1''), bits = 256 \<rparr>
             else if isECC then
               \<lparr> public_key.type = ECC, algorithm = ''ECDSA'', curve = Some curve, bits = bits \<rparr>
             else
               \<lparr> public_key.type = RSA, algorithm = ''RSA'', curve = None, bits = bits \<rparr>);
          sigInfo =
            (if includes_str (toLowerCase signatureAlgorithm) ''sm2'' \<or>
                includes_str (toLowerCase signatureAlgorithm) ''sm3''
             then ''SM3withSM2'' else signatureAlgorithm);
          hasOrg = truthy (organization subject);
          validationLevel = (if hasOrg then OV else DV)
      in \<lparr> certificate.subject = subject,
           issuer = issuer,
           serialNumber = serialNumber,
           fingerprint = [],
           fingerprint256 = fingerprint256,
           subjectAltNames = subjectAltNames,
           bits = bits,
           publicKey = publicKey,
           signatureAlgorithm = sigInfo,
           validationLevel = validationLevel,
           version = 3,
           type = None,
           isGM = Some isGM \<rparr>)"

text \<open>\<open>parsePEMCertificate\<close>: a decoder call that rejects is caught and gives
  \<^verbatim>\<open>null\<close>, here \<open>None\<close>.\<close>

definition parsePEMCertificate :: "toolkit \<Rightarrow> string \<Rightarrow> certificate option" where
  "parsePEMCertificate exec pem =
     (case exec (X509Text pem) of
        Inl err \<Rightarrow> None
      | Inr result \<Rightarrow> Some (parsePEMCertificate_text (stdout result @ stderr result)))"

subsection \<open>Parsing the output of the session client\<close>

definition BEGIN_CERTIFICATE :: string where
  "BEGIN_CERTIFICATE = ''-----BEGIN CERTIFICATE-----''"

definition END_CERTIFICATE :: string where
  "END_CERTIFICATE = ''-----END CERTIFICATE-----''"

text \<open>The lazy \<^verbatim>\<open>[\s\S]*?\<close> up to the first occurrence of \<open>pat\<close>: the text matched
  (after \<open>acc\<close>) and the rest of the input.\<close>

fun lazy_to :: "string \<Rightarrow> string \<Rightarrow> string \<Rightarrow> (string \<times> string) option" where
  "lazy_to pat acc [] = (if pat = [] then Some (acc, []) else None)"
| "lazy_to pat acc (c # cs) =
     (if prefix pat (c # cs) then Some (acc @ pat, drop (length pat) (c # cs))
      else lazy_to pat (acc @ [c]) cs)"

lemma lazy_to_rest: "lazy_to pat acc s = Some (block, rest) \<Longrightarrow> length rest \<le> length s"
proof (induction s arbitrary: acc)
  case Nil
  then show ?case by (simp split: if_splits)
next
  case (Cons c cs)
  show ?case
  proof (cases "prefix pat (c # cs)")
    case True
    with Cons.prems show ?thesis by auto
  next
    case False
    with Cons.prems have "lazy_to pat (acc @ [c]) cs = Some (block, rest)" by simp
    from Cons.IH [OF this] show ?thesis by simp
  qed
qed

text \<open>All the matches of
  \<^verbatim>\<open>/-----BEGIN CERTIFICATE-----[\s\S]*?-----END CERTIFICATE-----/g\<close>, from left to
  right, each search starting where the match before it ended.\<close>

function match_certs :: "string \<Rightarrow> string list" where
  "match_certs s =
     (if s = [] then []
      else if prefix BEGIN_CERTIFICATE s then
        (case lazy_to END_CERTIFICATE BEGIN_CERTIFICATE (drop (length BEGIN_CERTIFICATE) s) of
           Some (block, rest) \<Rightarrow> block # match_certs rest
         | None \<Rightarrow> match_certs (tl s))
      else match_certs (tl s))"
  by pat_completeness auto
termination
  apply (relation "measure length")
  apply simp
  subgoal for s
    by (cases s) auto
  subgoal for s x2 block rest
    using lazy_to_rest [of END_CERTIFICATE BEGIN_CERTIFICATE
        "drop (length BEGIN_CERTIFICATE) s" block rest]
    by (cases s) (auto simp: BEGIN_CERTIFICATE_def)
  subgoal for s
    by (cases s) auto
  done

declare tryConnect.simps [simp del]
declare walk.simps [simp del]
declare match_certs.simps [simp del]

text \<open>\<^verbatim>\<open>/KEY\s*:\s*(\S+)/i\<close> and \<^verbatim>\<open>/Cipher is\s+(\S+)/i\<close>, for the protocol and
  cipher lines.\<close>

definition match_colon_word :: "string \<Rightarrow> string \<Rightarrow> string option" where
  "match_colon_word key text =
     search (lit key (star isSpace (lit '':''
       (star isSpace (plus_cap (\<lambda>c. \<not> isSpace c) captured))))) text"

definition match_cipher_is :: "string \<Rightarrow> string option" where
  "match_cipher_is text =
     search (lit ''Cipher is'' (plus isSpace (plus_cap (\<lambda>c. \<not> isSpace c) captured))) text"

text \<open>\<^verbatim>\<open>a || b\<close> on two match results.\<close>

fun or_match :: "string option \<Rightarrow> string option \<Rightarrow> string option" where
  "or_match (Some m) y = Some m"
| "or_match None y = y"

text \<open>The chain position by index, among the certificates that were parsed
  (the \<^verbatim>\<open>map\<close> over the filtered results, with its index and array arguments).\<close>

definition position_at :: "nat \<Rightarrow> nat \<Rightarrow> chain_position" where
  "position_at n index =
     (if index = 0 then Leaf else if index = n - 1 then Root else Intermediate)"

definition set_positions :: "certificate list \<Rightarrow> certificate list" where
  "set_positions kept =
     map (\<lambda>(index, cert). cert\<lparr> type := Some (position_at (length kept) index) \<rparr>)
       (zip [0..<length kept] kept)"

definition parseOpenSSLOutput ::
  "toolkit \<Rightarrow> string \<Rightarrow> string \<Rightarrow> string \<Rightarrow> nat \<Rightarrow> chain_result" where
  "parseOpenSSLOutput exec out err host portno =
     (let certs = match_certs out;
          parsedCerts = map (parsePEMCertificate exec) certs;
          kept = List.map_filter (\<lambda>c. c) parsedCerts;
          chain = set_positions kept;
          protocolMatch = or_match (match_colon_word ''Protocol'' err)
                            (match_colon_word ''Protocol'' out);
          cipherMatch = or_match (match_colon_word ''Cipher'' err)
                          (or_match (match_cipher_is err) (match_colon_word ''Cipher'' out));
          hasGMCert = list_ex (\<lambda>c. isGM c = Some True) chain;
          isNTLS = (includes_str err ''NTLS'' \<or> includes_str err ''GMTLS'' \<or>
                    includes_str err ''GMSSL'' \<or> hasGMCert);
          cipherName = (case cipherMatch of Some m \<Rightarrow> m | None \<Rightarrow> []);
          cipherName' = (if cipherName = [] \<and> hasGMCert then ''SM2-WITH-SM4-SM3''
                         else cipherName)
      in \<lparr> domain = host,
           port = portno,
           certificates = mark_self_signed chain,
           isValid = True,
           isSelfSigned = single_self_signed chain,
           isGMSSL = Some (isNTLS \<or> hasGMCert),
           error = None,
           protocol = Some (case protocolMatch of
                              Some m \<Rightarrow> m
                            | None \<Rightarrow> if isNTLS \<or> hasGMCert then ''GMTLS'' else ''TLS''),
           cipher = \<lparr> name = (if cipherName' \<noteq> [] then cipherName' else ''Unknown''),
                      standardName = None, version = None \<rparr>,
           fallback = None,
           fallbackReason = None \<rparr>)"

subsection \<open>The fallback\<close>

definition getGMCertificateChain :: "toolkit \<Rightarrow> string \<Rightarrow> nat \<Rightarrow> error + chain_result" where
  "getGMCertificateChain exec host portno =
     (let first = (case exec (SClientNTLS host portno) of
                     Inl err \<Rightarrow> None
                   | Inr r \<Rightarrow> Some r);
          second =
            (case first of
               None \<Rightarrow> exec (SClient host portno)
             | Some r \<Rightarrow>
                 if includes_str (stdout r) ''BEGIN CERTIFICATE'' then Inr r
                 else exec (SClient host portno))
      in case second of
           Inl err \<Rightarrow> Inl err
         | Inr result \<Rightarrow>
             if \<not> includes_str (stdout result) ''BEGIN CERTIFICATE''
             then Inl NoCertificateInfo
             else Inr (parseOpenSSLOutput exec (stdout result) (stderr result) host portno))"

definition getCertificateChainWithFallback ::
  "network \<Rightarrow> toolkit \<Rightarrow> string \<Rightarrow> nat \<Rightarrow> nat \<Rightarrow> error + chain_result" where
  "getCertificateChainWithFallback connect exec host portno timeout =
     (case getCertificateChain connect host portno timeout of
        Inr result \<Rightarrow> Inr result
      | Inl nodeError \<Rightarrow>
          (case getGMCertificateChain exec host portno of
             Inr result \<Rightarrow>
               Inr (result\<lparr> fallback := Some True,
                            fallbackReason := Some (message nodeError) \<rparr>)
           | Inl opensslError \<Rightarrow> Inl RequestFailed))"

section \<open>Example inputs\<close>

text \<open>Concrete certificates, sessions, networks and toolkit answers, on which the
  properties below are evaluated.\<close>

definition blank_name :: x509name where
  "blank_name =
     \<lparr> attr_CN = None, attr_O = None, attr_OU = None, attr_C = None,
       attr_ST = None, attr_S = None, attr_L = None,
       attr_businessCategory = None, attr_serialNumber = None \<rparr>"

text \<open>An unbounded chain of RSA certificates with pairwise different fingerprints: the
  certificate at address \<open>a\<close> is issued by the one at \<open>a + 1\<close>.\<close>

definition long_chain :: "addr \<Rightarrow> peer_cert" where
  "long_chain a =
     \<lparr> peer_cert.subject = Some (blank_name\<lparr> attr_CN := Some (replicate (Suc a) (CHR ''c'')) \<rparr>),
       issuer = Some (blank_name\<lparr> attr_CN := Some (replicate (Suc (Suc a)) (CHR ''c'')) \<rparr>),
       infoAccess = None, asn1Curve = None, bits = Some 2048,
       modulus = Some (replicate 512 (CHR ''A'')), pubkey = None, serialNumber = None,
       fingerprint = None, fingerprint256 = Some (replicate (Suc a) (CHR ''F'')),
       subjectaltname = None, version = Some 3, issuerCertificate = Some (Suc a) \<rparr>"

text \<open>A session whose peer certificate is the object at address 0 of the given store.\<close>

definition socket_of :: "(addr \<Rightarrow> peer_cert) \<Rightarrow> tls_socket" where
  "socket_of store =
     \<lparr> peerCertificate = Some 0, objects = store, authorized = False,
       authorizationError = Some ''SELF_SIGNED_CERT_IN_CHAIN'',
       getProtocol = Some ''TLSv1.3'',
       getCipher = \<lparr> name = ''TLS_AES_256_GCM_SHA384'',
                     standardName = Some ''TLS_AES_256_GCM_SHA384'',
                     version = Some ''TLSv1.3'' \<rparr> \<rparr>"

text \<open>Networks: every profile connects; the first profile times out and the others
  would connect; the first profile fails with an error and the second times out; every
  profile fails with an error.\<close>

definition net_up :: "tls_socket \<Rightarrow> network" where
  "net_up s host portno timeout config = Connected s"

definition net_first_timeout :: network where
  "net_first_timeout host portno timeout config =
     (if config = TLS_CONFIGS ! 0 then SocketTimeout else Connected (socket_of long_chain))"

definition net_second_timeout :: network where
  "net_second_timeout host portno timeout config =
     (if config = TLS_CONFIGS ! 0 then SocketError
      else if config = TLS_CONFIGS ! 1 then SocketTimeout
      else Connected (socket_of long_chain))"

definition net_down :: network where
  "net_down host portno timeout config = SocketError"

text \<open>Toolkits: one that cannot be started, and one whose session client prints one PEM
  block and whose decoder prints the given text for it.\<close>

definition exec_down :: toolkit where
  "exec_down call = Inl (SpawnError ''spawn openssl ENOENT'')"

definition pem_block :: string where
  "pem_block = BEGIN_CERTIFICATE @ [LF] @ ''MIIB'' @ [LF] @ END_CERTIFICATE"

definition exec_one :: "string \<Rightarrow> toolkit" where
  "exec_one text call =
     (case call of
        X509Text pem \<Rightarrow> Inr \<lparr> code = Some 0, stdout = text, stderr = [] \<rparr>
      | SClientNTLS host portno \<Rightarrow> Inr \<lparr> code = Some 1, stdout = [], stderr = ''connect:errno=111'' \<rparr>
      | SClient host portno \<Rightarrow> Inr \<lparr> code = Some 0, stdout = pem_block, stderr = [] \<rparr>)"

text \<open>An RSA certificate object with the given subject and issuer common names,
  fingerprint and issuer link.\<close>

definition sample_cert :: "string \<Rightarrow> string \<Rightarrow> string \<Rightarrow> addr option \<Rightarrow> peer_cert" where
  "sample_cert cn icn fp link =
     \<lparr> peer_cert.subject = Some (blank_name\<lparr> attr_CN := Some cn \<rparr>),
       issuer = Some (blank_name\<lparr> attr_CN := Some icn \<rparr>),
       infoAccess = None, asn1Curve = None, bits = Some 2048,
       modulus = Some (replicate 512 (CHR ''A'')), pubkey = None, serialNumber = Some ''01'',
       fingerprint = None, fingerprint256 = Some fp,
       subjectaltname = None, version = Some 3, issuerCertificate = link \<rparr>"

text \<open>Certificate objects for the classifiers: a subject with an organisation only; no
  organisation; an extended-validation policy identifier in the \<open>infoAccess\<close> data and
  no organisation; the full organisation attributes with a business category; an
  elliptic-curve key; an Ed25519 key; no key data at all.\<close>

definition ov_subject :: x509name where
  "ov_subject = blank_name\<lparr> attr_CN := Some ''acme.example.com'', attr_O := Some ''Acme Corp'' \<rparr>"

definition ov_cert :: peer_cert where
  "ov_cert = (sample_cert ''acme.example.com'' ''Example CA'' ''AA:10'' None)
     \<lparr> peer_cert.subject := Some ov_subject \<rparr>"

definition dv_subject :: x509name where
  "dv_subject = blank_name\<lparr> attr_CN := Some ''a.example.com'' \<rparr>"

definition dv_cert :: peer_cert where
  "dv_cert = (sample_cert ''a.example.com'' ''Example CA'' ''AA:11'' None)
     \<lparr> peer_cert.subject := Some dv_subject \<rparr>"

definition ev_oid_cert :: peer_cert where
  "ev_oid_cert = dv_cert
     \<lparr> infoAccess := Some [(''CA Issuers - URI'', [''http://ca.example/2.23.140.1.1/ca.crt'']),
                           (''OCSP - URI'', [''http://ocsp.ca.example''])] \<rparr>"

definition full_org_subject :: x509name where
  "full_org_subject =
     \<lparr> attr_CN = Some ''acme.example.com'', attr_O = Some ''Acme Corp'', attr_OU = None,
       attr_C = Some ''US'', attr_ST = Some ''California'', attr_S = None,
       attr_L = Some ''San Francisco'',
       attr_businessCategory = Some ''Private Organization'', attr_serialNumber = None \<rparr>"

definition full_org_cert :: peer_cert where
  "full_org_cert = dv_cert\<lparr> peer_cert.subject := Some full_org_subject \<rparr>"

definition ec_cert :: peer_cert where
  "ec_cert = dv_cert\<lparr> asn1Curve := Some ''prime256v1'', peer_cert.bits := Some 256,
     modulus := None \<rparr>"

definition ed25519_cert :: peer_cert where
  "ed25519_cert = dv_cert\<lparr> peer_cert.bits := None, modulus := None,
     pubkey := Some (replicate 32 0) \<rparr>"

definition keyless_cert :: peer_cert where
  "keyless_cert = dv_cert\<lparr> peer_cert.bits := None, modulus := None \<rparr>"


text \<open>Stores: a self-signed certificate that is its own issuer; a leaf without issuer
  link whose issuer has another name; a leaf and its self-issued root; a certificate with
  an SM2 key.\<close>

definition self_signed_store :: "addr \<Rightarrow> peer_cert" where
  "self_signed_store a = sample_cert ''localhost'' ''localhost'' ''AA:01'' (Some 0)"

definition lone_leaf_store :: "addr \<Rightarrow> peer_cert" where
  "lone_leaf_store a = sample_cert ''a.example.com'' ''Example CA'' ''AA:02'' None"

definition two_chain_store :: "addr \<Rightarrow> peer_cert" where
  "two_chain_store a =
     (if a = 0 then sample_cert ''a.example.com'' ''Example CA'' ''AA:03'' (Some 1)
      else sample_cert ''Example CA'' ''Example CA'' ''AA:04'' (Some 1))"

definition sm2_store :: "addr \<Rightarrow> peer_cert" where
  "sm2_store a =
     (sample_cert ''sm2.example.cn'' ''Example SM2 CA'' ''AA:05'' None)
       \<lparr> asn1Curve := Some ''sm2p256v1'', peer_cert.bits := Some 256, modulus := None \<rparr>"

text \<open>A toolkit whose session client prints two PEM blocks and whose decoder answers
  each with a short dump; and one whose decoder runs into its timeout on every
  block.\<close>

definition pem_a :: string where
  "pem_a = BEGIN_CERTIFICATE @ [LF] @ ''MIIA'' @ [LF] @ END_CERTIFICATE"

definition pem_b :: string where
  "pem_b = BEGIN_CERTIFICATE @ [LF] @ ''MIIB'' @ [LF] @ END_CERTIFICATE"

definition two_blocks :: string where
  "two_blocks = ''Certificate chain'' @ [LF] @ pem_a @ [LF] @ pem_b @ [LF] @ ''---'' @ [LF]"

definition exec_two :: toolkit where
  "exec_two call =
     (case call of
        X509Text pem \<Rightarrow>
          Inr \<lparr> code = Some 0,
                stdout = (if pem = pem_a then ''Subject: CN = a.example.com''
                          else ''Subject: CN = Example CA''),
                stderr = [] \<rparr>
      | SClientNTLS host portno \<Rightarrow> Inr \<lparr> code = Some 0, stdout = two_blocks, stderr = [] \<rparr>
      | SClient host portno \<Rightarrow> Inr \<lparr> code = Some 0, stdout = two_blocks, stderr = [] \<rparr>)"

definition exec_decoder_timeout :: toolkit where
  "exec_decoder_timeout call =
     (case call of
        X509Text pem \<Rightarrow> Inl CommandTimeout
      | SClientNTLS host portno \<Rightarrow> Inr \<lparr> code = Some 0, stdout = two_blocks, stderr = [] \<rparr>
      | SClient host portno \<Rightarrow> Inr \<lparr> code = Some 0, stdout = two_blocks, stderr = [] \<rparr>)"

text \<open>Decoder dumps, cut down to the lines that the parser reads: an RSA certificate
  signed with SM2 and SM3; an RSA certificate; an elliptic-curve certificate; an Ed25519
  certificate; a certificate with an extended-validation policy and the full
  organisation attributes in its subject; a certificate with alternative names.\<close>

definition gm_signed_dump :: string where
  "gm_signed_dump =
     ''Signature Algorithm: SM2-with-SM3'' @ [LF] @
     ''Subject: CN=rsa.example.cn'' @ [LF] @
     ''Public Key Algorithm: rsaEncryption'' @ [LF] @
     ''Public-Key: (2048 bit)'' @ [LF]"

definition rsa_dump :: string where
  "rsa_dump =
     ''Public Key Algorithm: rsaEncryption'' @ [LF] @
     ''Public-Key: (2048 bit)'' @ [LF]"

definition ec_dump :: string where
  "ec_dump =
     ''Public Key Algorithm: id-ecPublicKey'' @ [LF] @
     ''Public-Key: (384 bit)'' @ [LF] @
     ''ASN1 OID: secp384r1'' @ [LF]"

definition ed25519_dump :: string where
  "ed25519_dump =
     ''Public Key Algorithm: ED25519'' @ [LF] @
     ''ED25519 Public-Key:'' @ [LF] @
     ''pub:'' @ [LF]"

definition ev_subject :: string where
  "ev_subject = ''C=US,ST=CA,L=SF,O=Acme Corp,businessCategory=Private Organization,serialNumber=1234,CN=acme.example.com''"

definition ev_dump :: string where
  "ev_dump =
     ''Subject: '' @ ev_subject @ [LF] @
     ''Policy: 2.23.140.1.1'' @ [LF]"



section \<open>Auxiliary notions\<close>

text \<open>A chain entry behind the first: typed root or intermediate.\<close>

definition inner_position :: "certificate \<Rightarrow> bool" where
  "inner_position c = (type c = Some Root \<or> type c = Some Intermediate)"

text \<open>An entry that the session path adds behind the first: typed root or intermediate,
  and without the \<open>isGM\<close> field.\<close>

definition issuer_link :: "certificate \<Rightarrow> bool" where
  "issuer_link c = (inner_position c \<and> isGM c = None)"

text \<open>The certificates that survive on the toolkit path.\<close>

definition surviving :: "toolkit \<Rightarrow> string \<Rightarrow> certificate list" where
  "surviving exec out =
     List.map_filter (\<lambda>c. c) (map (parsePEMCertificate exec) (match_certs out))"








section \<open>Properties\<close>

subsection \<open>Substrings\<close>

lemma includes_str_sublist: "includes_str s pat \<longleftrightarrow> sublist pat s"
  by (induction s) (auto simp: sublist_Cons_right)

lemma prefix_map_same: "prefix p s \<Longrightarrow> prefix (map f p) (map f s)"
  by (auto simp: prefix_def)

lemma includes_str_map: "includes_str s pat \<Longrightarrow> includes_str (map f s) (map f pat)"
proof (induction s)
  case Nil
  then show ?case by simp
next
  case (Cons c cs)
  from Cons.prems have "prefix pat (c # cs) \<or> includes_str cs pat" by simp
  then show ?case
  proof
    assume "prefix pat (c # cs)"
    then have "prefix (map f pat) (map f (c # cs))" by (rule prefix_map_same)
    then show ?thesis by simp
  next
    assume "includes_str cs pat"
    then show ?thesis using Cons.IH by simp
  qed
qed

text \<open>An occurrence of a pattern survives the lower-casing of the text.\<close>

lemma includes_str_toLowerCase:
  "includes_str s pat \<Longrightarrow> includes_str (toLowerCase s) (toLowerCase pat)"
  unfolding toLowerCase_def by (rule includes_str_map)

subsection \<open>The connection profiles\<close>

lemma tryConnect_first:
  "connect host portno timeout (TLS_CONFIGS ! 0) = Connected s \<Longrightarrow>
   tryConnect connect host portno timeout 0 = Inr s"
  by (subst tryConnect.simps) (simp add: TLS_CONFIGS_def)

lemma tryConnect_skip_errors:
  "\<forall>j. k \<le> j \<and> j < i \<longrightarrow> connect host portno timeout (TLS_CONFIGS ! j) = SocketError \<Longrightarrow>
   k \<le> i \<Longrightarrow> i \<le> length TLS_CONFIGS \<Longrightarrow>
   tryConnect connect host portno timeout k = tryConnect connect host portno timeout i"
proof (induction "i - k" arbitrary: k)
  case 0
  then show ?case by simp
next
  case (Suc n)
  then have k: "k < i" "k < length TLS_CONFIGS" by auto
  with Suc.prems have "connect host portno timeout (TLS_CONFIGS ! k) = SocketError" by auto
  with k have "tryConnect connect host portno timeout k =
      tryConnect connect host portno timeout (k + 1)"
    by (subst tryConnect.simps) simp
  moreover have "tryConnect connect host portno timeout (k + 1) =
      tryConnect connect host portno timeout i"
    using Suc by (intro Suc.hyps) auto
  ultimately show ?case by simp
qed


text \<open>
  C2 (as amended). Let the profiles before profile \<open>i\<close> all fail with an error event. If
  profile \<open>i\<close> fails with an error event too, that is a failure of this one profile: the
  strategist goes on with profile \<open>i + 1\<close>, and after the last profile it fails with the
  connection error. If profile \<open>i\<close> times out, the timeout is the strategist's
  terminal error at once, whether or not \<open>i\<close> is the last profile; the later profiles are
  not tried.
\<close>

theorem tryConnect_profile_failure:
  assumes "i < length TLS_CONFIGS"
    and "\<forall>j<i. connect host portno timeout (TLS_CONFIGS ! j) = SocketError"
  shows "(connect host portno timeout (TLS_CONFIGS ! i) = SocketTimeout \<longrightarrow>
            tryConnect connect host portno timeout 0 = Inl ConnectTimeout)
       \<and> (connect host portno timeout (TLS_CONFIGS ! i) = SocketError \<longrightarrow>
            tryConnect connect host portno timeout 0 =
              (if i + 1 = length TLS_CONFIGS then Inl ConnectFailed
               else tryConnect connect host portno timeout (i + 1)))"
proof -
  have "tryConnect connect host portno timeout 0 = tryConnect connect host portno timeout i"
    using assms by (intro tryConnect_skip_errors) auto
  also have "\<dots> = (case connect host portno timeout (TLS_CONFIGS ! i) of
              Connected socket \<Rightarrow> Inr socket
            | SocketError \<Rightarrow> tryConnect connect host portno timeout (i + 1)
            | SocketTimeout \<Rightarrow> Inl ConnectTimeout)"
    using assms(1) by (subst tryConnect.simps) simp
  finally have step: "tryConnect connect host portno timeout 0 =
      (case connect host portno timeout (TLS_CONFIGS ! i) of
              Connected socket \<Rightarrow> Inr socket
            | SocketError \<Rightarrow> tryConnect connect host portno timeout (i + 1)
            | SocketTimeout \<Rightarrow> Inl ConnectTimeout)" .
  have last: "i + 1 = length TLS_CONFIGS \<Longrightarrow>
      tryConnect connect host portno timeout (i + 1) = Inl ConnectFailed"
    by (subst tryConnect.simps) simp
  show ?thesis using step last by simp
qed

text \<open>
  The hypotheses of C2 hold on a network whose first profile fails with an error and
  whose second profile times out, and on a network where every profile fails with an
  error.
\<close>

theorem tryConnect_profile_failure_witness:
  "(1::nat) < length TLS_CONFIGS
   \<and> net_second_timeout ''example.com'' 443 10000 (TLS_CONFIGS ! 0) = SocketError
   \<and> net_second_timeout ''example.com'' 443 10000 (TLS_CONFIGS ! 1) = SocketTimeout
   \<and> tryConnect net_second_timeout ''example.com'' 443 10000 0 = Inl ConnectTimeout
   \<and> tryConnect net_down ''example.com'' 443 10000 0 = Inl ConnectFailed"
  using tryConnect_profile_failure [of 1 net_second_timeout "''example.com''" 443 10000]
    tryConnect_profile_failure [of 2 net_down "''example.com''" 443 10000]
  by (simp add: net_second_timeout_def net_down_def TLS_CONFIGS_def)

text \<open>
  C2 (as stated) fails: on a network where the first profile times out and the second
  would connect, the strategist ends with the timeout error; started at the second
  profile it returns the session.
\<close>

theorem tryConnect_timeout_counterexample:
  "tryConnect net_first_timeout ''example.com'' 443 10000 0 = Inl ConnectTimeout
   \<and> tryConnect net_first_timeout ''example.com'' 443 10000 1 = Inr (socket_of long_chain)"
  by (simp add: tryConnect.simps net_first_timeout_def TLS_CONFIGS_def)

subsection \<open>The chain walk\<close>

lemma replicate_F_eq: "replicate m (CHR ''F'') = replicate n (CHR ''F'') \<longleftrightarrow> m = n"
  by (metis length_replicate)

lemma walk_length: "length (walk store cert seen chain) \<le> max (Suc (length chain)) 11"
proof (induction store cert seen chain rule: walk.induct)
  case (1 store cert seen chain)
  show ?case
  proof (cases cert)
    case None
    then show ?thesis by (simp add: walk.simps)
  next
    case (Some a)
    show ?thesis
    proof (cases "peer_cert.fingerprint256 (store a) \<in> seen")
      case True
      with Some show ?thesis by (simp add: walk.simps)
    next
      case False
      show ?thesis
      proof (cases "length chain < 10")
        case True
        with Some False "1.IH" [OF Some False refl refl refl]
        show ?thesis
          by (subst walk.simps) (simp add: Let_def)
      next
        case full: False
        with Some False show ?thesis
          by (subst walk.simps) (simp add: Let_def)
      qed
    qed
  qed
qed

text \<open>
  C1: the walk ends on every session (\<open>walk\<close> is a total function: its list grows in
  every round and the loop leaves above ten entries), but the cap is tested after the
  entry is added and with \<open>> 10\<close>. On a session whose peer presents a chain of eleven or
  more certificates with different fingerprints the result holds eleven certificates.
\<close>

theorem walk_collects_eleven:
  "(case getCertificateChain (net_up (socket_of long_chain)) ''example.com'' 443 10000 of
      Inl e \<Rightarrow> False
    | Inr r \<Rightarrow> length (certificates r) = 11)"
  by (simp add: getCertificateChain_def tryConnect_first net_up_def socket_of_def walk.simps
      Let_def replicate_F_eq long_chain_def mark_self_signed_def single_self_signed_def)

subsection \<open>The shape of a chain\<close>

lemma parseCertificate_isGM: "isGM (parseCertificate cert) = None"
  by (simp add: parseCertificate_def Let_def)

lemma walk_appends:
  "chain \<noteq> [] \<Longrightarrow> \<exists>added. walk store cert seen chain = chain @ added \<and> list_all issuer_link added"
proof (induction store cert seen chain rule: walk.induct)
  case (1 store cert seen chain)
  show ?case
  proof (cases cert)
    case None
    then show ?thesis by (simp add: walk.simps)
  next
    case (Some a)
    show ?thesis
    proof (cases "peer_cert.fingerprint256 (store a) \<in> seen")
      case True
      with Some show ?thesis by (simp add: walk.simps)
    next
      case False
      define position where "position =
        (if issuerCertificate (store a) = Some a \<or> issuerCertificate (store a) = None
         then Root else Intermediate)"
      define entry where "entry = (parseCertificate (store a))\<lparr> type := Some position \<rparr>"
      have entry: "issuer_link entry"
        by (simp add: entry_def position_def issuer_link_def inner_position_def
            parseCertificate_isGM)
      show ?thesis
      proof (cases "length chain < 10")
        case True
        have unfold: "walk store cert seen chain =
            walk store (issuerCertificate (store a))
              (insert (peer_cert.fingerprint256 (store a)) seen) (chain @ [entry])"
          using Some False True "1.prems"
          by (subst walk.simps) (simp add: Let_def entry_def position_def)
        have "\<exists>added. walk store (issuerCertificate (store a))
              (insert (peer_cert.fingerprint256 (store a)) seen) (chain @ [entry]) =
              (chain @ [entry]) @ added \<and> list_all issuer_link added"
          using Some False True "1.prems"
          by (intro "1.IH" [OF Some False refl refl, of "chain @ [entry]"])
             (auto simp: entry_def position_def)
        then obtain added where "walk store (issuerCertificate (store a))
              (insert (peer_cert.fingerprint256 (store a)) seen) (chain @ [entry]) =
              (chain @ [entry]) @ added" "list_all issuer_link added" by blast
        with unfold entry show ?thesis by (intro exI [of _ "entry # added"]) simp
      next
        case full: False
        have "walk store cert seen chain = chain @ [entry]"
          using Some False full "1.prems"
          by (subst walk.simps) (simp add: Let_def entry_def position_def)
        with entry show ?thesis by (intro exI [of _ "[entry]"]) simp
      qed
    qed
  qed
qed

lemma walk_from_peer:
  "\<exists>added. walk store (Some a) {} [] =
     (parseCertificate (store a))\<lparr> type := Some Leaf \<rparr> # added \<and> list_all issuer_link added"
proof -
  define leaf where "leaf = (parseCertificate (store a))\<lparr> type := Some Leaf \<rparr>"
  have "walk store (Some a) {} [] =
      walk store (issuerCertificate (store a)) {peer_cert.fingerprint256 (store a)} [leaf]"
    by (subst walk.simps) (simp add: Let_def leaf_def)
  moreover obtain added where
    "walk store (issuerCertificate (store a)) {peer_cert.fingerprint256 (store a)} [leaf] =
       [leaf] @ added" "list_all issuer_link added"
    using walk_appends [of "[leaf]"] by blast
  ultimately show ?thesis by (auto simp: leaf_def)
qed

text \<open>The positions set by index on the toolkit path.\<close>

lemma length_set_positions: "length (set_positions kept) = length kept"
  by (simp add: set_positions_def)

lemma nth_set_positions:
  "i < length kept \<Longrightarrow>
   set_positions kept ! i = (kept ! i)\<lparr> type := Some (position_at (length kept) i) \<rparr>"
  by (simp add: set_positions_def)

lemma set_positions_Nil: "set_positions [] = []"
  by (simp add: set_positions_def)

lemma set_positions_Cons:
  "\<exists>rest. set_positions (k # ks) = k\<lparr> type := Some Leaf \<rparr> # rest
      \<and> length rest = length ks \<and> list_all inner_position rest"
proof -
  obtain x rest where xr: "set_positions (k # ks) = x # rest"
    using length_set_positions [of "k # ks"] by (cases "set_positions (k # ks)") auto
  have len: "length rest = length ks"
    using length_set_positions [of "k # ks"] xr by simp
  have "x = set_positions (k # ks) ! 0" using xr by simp
  then have x: "x = k\<lparr> type := Some Leaf \<rparr>"
    by (simp add: nth_set_positions position_at_def)
  have "inner_position (rest ! i)" if "i < length rest" for i
  proof -
    have "rest ! i = set_positions (k # ks) ! Suc i" using xr by simp
    also have "\<dots> = ((k # ks) ! Suc i)\<lparr> type := Some (position_at (length (k # ks)) (Suc i)) \<rparr>"
      using that len by (intro nth_set_positions) simp
    finally show ?thesis by (simp add: inner_position_def position_at_def)
  qed
  then have "list_all inner_position rest" by (simp add: list_all_length)
  with xr x len show ?thesis by blast
qed

text \<open>The self-signed test and mark on a chain.\<close>

lemma single_self_signed_Cons:
  "single_self_signed (l # rest) \<longleftrightarrow>
     rest = [] \<and> commonName (certificate.subject l) = commonName (certificate.issuer l)"
  by (cases rest) (auto simp: single_self_signed_def)

lemma single_self_signed_Nil: "\<not> single_self_signed []"
  by (simp add: single_self_signed_def)

lemma mark_self_signed_Cons:
  "mark_self_signed (l # rest) =
     (if rest = [] \<and> commonName (certificate.subject l) = commonName (certificate.issuer l)
      then [l\<lparr> type := Some SelfSigned \<rparr>] else l # rest)"
  by (auto simp: mark_self_signed_def single_self_signed_Cons)

lemma mark_self_signed_Nil: "mark_self_signed [] = []"
  by (simp add: mark_self_signed_def single_self_signed_def)

lemma map_isGM_mark: "map isGM (mark_self_signed cs) = map isGM cs"
  by (cases cs) (auto simp: mark_self_signed_Nil mark_self_signed_Cons)

lemma length_mark: "length (mark_self_signed cs) = length cs"
  by (cases cs) (auto simp: mark_self_signed_Nil mark_self_signed_Cons)

lemma filter_leaf_inner: "list_all inner_position rest \<Longrightarrow> filter (\<lambda>c. type c = Some Leaf) rest = []"
  by (induction rest) (auto simp: inner_position_def)

subsection \<open>The fallback\<close>



subsection \<open>Results of either path\<close>

lemma match_two_blocks: "match_certs two_blocks = [pem_a, pem_b]"
  by code_simp

lemma live_result_chain:
  assumes "getCertificateChain connect host portno timeout = Inr r"
  shows "\<exists>l rest. certificates r = mark_self_signed (l # rest)
           \<and> isSelfSigned r = single_self_signed (l # rest)
           \<and> type l = Some Leaf \<and> isGM l = None \<and> list_all issuer_link rest
           \<and> isGMSSL r = None \<and> fallback r = None \<and> fallbackReason r = None"
proof -
  from assms obtain socket where socket: "tryConnect connect host portno timeout 0 = Inr socket"
    by (cases "tryConnect connect host portno timeout 0") (auto simp: getCertificateChain_def)
  with assms obtain peer where peer: "peerCertificate socket = Some peer"
    by (cases "peerCertificate socket") (auto simp: getCertificateChain_def)
  from assms socket peer have
    r: "certificates r = mark_self_signed (walk (objects socket) (Some peer) {} [])"
       "isSelfSigned r = single_self_signed (walk (objects socket) (Some peer) {} [])"
       "isGMSSL r = None" "fallback r = None" "fallbackReason r = None"
    by (auto simp: getCertificateChain_def Let_def)
  obtain added where
    "walk (objects socket) (Some peer) {} [] =
       (parseCertificate (objects socket peer))\<lparr> type := Some Leaf \<rparr> # added"
    "list_all issuer_link added"
    using walk_from_peer by blast
  with r show ?thesis
    by (intro exI [of _ "(parseCertificate (objects socket peer))\<lparr> type := Some Leaf \<rparr>"]
        exI [of _ added]) (simp add: parseCertificate_isGM)
qed

lemma text_result_chain:
  "certificates (parseOpenSSLOutput exec out err host portno) =
     mark_self_signed (set_positions (surviving exec out))
   \<and> isSelfSigned (parseOpenSSLOutput exec out err host portno) =
     single_self_signed (set_positions (surviving exec out))"
  by (simp add: parseOpenSSLOutput_def Let_def surviving_def)

lemma fallback_result:
  assumes "getGMCertificateChain exec host portno = Inr r"
  shows "\<exists>out err. r = parseOpenSSLOutput exec out err host portno"
  using assms
  by (auto simp: getGMCertificateChain_def Let_def split: sum.splits option.splits if_splits)

lemma issuer_link_inner: "list_all issuer_link rest \<Longrightarrow> list_all inner_position rest"
  by (induction rest) (auto simp: issuer_link_def)

lemma result_chain:
  assumes "getCertificateChainWithFallback connect exec host portno timeout = Inr r"
  shows "\<exists>cs. certificates r = mark_self_signed cs \<and> isSelfSigned r = single_self_signed cs
           \<and> (cs = [] \<or> (\<exists>l rest. cs = l # rest \<and> type l = Some Leaf
                              \<and> list_all inner_position rest))"
proof (cases "getCertificateChain connect host portno timeout")
  case (Inr r')
  with assms have "r' = r" by (simp add: getCertificateChainWithFallback_def)
  with Inr live_result_chain [of connect host portno timeout r] show ?thesis
    by (blast intro: issuer_link_inner)
next
  case (Inl e)
  with assms obtain r0 where r0: "getGMCertificateChain exec host portno = Inr r0"
    and r: "r = r0\<lparr> fallback := Some True, fallbackReason := Some (message e) \<rparr>"
    by (auto simp: getCertificateChainWithFallback_def split: sum.splits)
  from fallback_result [OF r0] obtain out err where
    "r0 = parseOpenSSLOutput exec out err host portno" by blast
  with r have cs: "certificates r = mark_self_signed (set_positions (surviving exec out))"
    "isSelfSigned r = single_self_signed (set_positions (surviving exec out))"
    using text_result_chain [of exec out err host portno] by simp_all
  show ?thesis
  proof (cases "surviving exec out")
    case Nil
    with cs show ?thesis by (intro exI [of _ "[]"]) (simp add: set_positions_Nil)
  next
    case (Cons k ks)
    obtain rest where "set_positions (k # ks) = k\<lparr> type := Some Leaf \<rparr> # rest"
      "list_all inner_position rest"
      using set_positions_Cons by blast
    with cs Cons show ?thesis
      by (intro exI [of _ "k\<lparr> type := Some Leaf \<rparr> # rest"]) simp
  qed
qed

text \<open>
  C7: whichever path produced the result, if the chain holds exactly one certificate
  and its subject and issuer \<open>commonName\<close> are equal, the certificate is typed
  self-signed and \<open>isSelfSigned\<close> is true; if they differ, the certificate is typed leaf
  (and \<open>isSelfSigned\<close> is false).
\<close>

theorem single_certificate_self_signed:
  assumes "getCertificateChainWithFallback connect exec host portno timeout = Inr r"
    and "certificates r = [c]"
  shows "(commonName (certificate.subject c) = commonName (certificate.issuer c) \<longrightarrow>
            type c = Some SelfSigned \<and> isSelfSigned r)
       \<and> (commonName (certificate.subject c) \<noteq> commonName (certificate.issuer c) \<longrightarrow>
            type c = Some Leaf \<and> \<not> isSelfSigned r)"
proof -
  from result_chain [OF assms(1)] obtain cs where
    cs: "certificates r = mark_self_signed cs" "isSelfSigned r = single_self_signed cs"
      "cs = [] \<or> (\<exists>l rest. cs = l # rest \<and> type l = Some Leaf \<and> list_all inner_position rest)"
    by blast
  from cs(1) assms(2) have "cs \<noteq> []" by (auto simp: mark_self_signed_Nil)
  with cs(3) obtain l rest where l: "cs = l # rest" "type l = Some Leaf" by blast
  from cs(1) assms(2) have "mark_self_signed cs = [c]" by simp
  then have "length (mark_self_signed cs) = 1" by simp
  then have "length cs = 1" by (simp add: length_mark)
  with l have "rest = []" by simp
  with cs assms(2) l show ?thesis
    by (auto simp: mark_self_signed_Cons single_self_signed_Cons split: if_splits)
qed


lemma sample_commonName:
  "commonName (certificate.subject (parseCertificate (sample_cert cn icn fp link))) =
     Some (str_or (Some cn) [])
   \<and> commonName (certificate.issuer (parseCertificate (sample_cert cn icn fp link))) =
     Some (str_or (Some icn) [])"
  by (simp add: parseCertificate_def Let_def parseSubject_def sample_cert_def blank_name_def)

lemma walk_self_signed_store:
  "walk self_signed_store (Some 0) {} [] =
     [(parseCertificate (self_signed_store 0))\<lparr> type := Some Leaf \<rparr>]"
  by (simp add: walk.simps Let_def self_signed_store_def sample_cert_def)

lemma walk_lone_leaf_store:
  "walk lone_leaf_store (Some 0) {} [] =
     [(parseCertificate (lone_leaf_store 0))\<lparr> type := Some Leaf \<rparr>]"
  by (simp add: walk.simps Let_def lone_leaf_store_def sample_cert_def)

lemma walk_two_chain_store:
  "walk two_chain_store (Some 0) {} [] =
     [(parseCertificate (two_chain_store 0))\<lparr> type := Some Leaf \<rparr>,
      (parseCertificate (two_chain_store 1))\<lparr> type := Some Root \<rparr>]"
  by (simp add: walk.simps Let_def two_chain_store_def sample_cert_def)

lemma live_run:
  "getCertificateChainWithFallback (net_up (socket_of store)) exec host portno timeout =
     getCertificateChain (net_up (socket_of store)) host portno timeout
   \<and> getCertificateChain (net_up (socket_of store)) host portno timeout =
     Inr \<lparr> domain = host, port = portno,
           certificates = mark_self_signed (walk store (Some 0) {} []),
           isValid = False,
           isSelfSigned = single_self_signed (walk store (Some 0) {} []),
           isGMSSL = None,
           error = Some ''SELF_SIGNED_CERT_IN_CHAIN'',
           protocol = Some ''TLSv1.3'',
           cipher = getCipher (socket_of store),
           fallback = None, fallbackReason = None \<rparr>"
  by (simp add: getCertificateChainWithFallback_def getCertificateChain_def tryConnect_first
      net_up_def socket_of_def Let_def)

text \<open>
  The hypotheses of C7 hold on a session with one certificate that is its own issuer,
  and on a session with one certificate whose issuer has another name and is not
  linked.
\<close>

theorem single_certificate_self_signed_witness:
  "(case getCertificateChainWithFallback (net_up (socket_of self_signed_store)) exec_down
           ''localhost'' 443 10000 of
      Inl e \<Rightarrow> False
    | Inr r \<Rightarrow>
        (case certificates r of
           [c] \<Rightarrow> commonName (certificate.subject c) = commonName (certificate.issuer c)
                   \<and> type c = Some SelfSigned \<and> isSelfSigned r
         | _ \<Rightarrow> False))
   \<and> (case getCertificateChainWithFallback (net_up (socket_of lone_leaf_store)) exec_down
           ''a.example.com'' 443 10000 of
      Inl e \<Rightarrow> False
    | Inr r \<Rightarrow>
        (case certificates r of
           [c] \<Rightarrow> commonName (certificate.subject c) \<noteq> commonName (certificate.issuer c)
                   \<and> type c = Some Leaf \<and> \<not> isSelfSigned r
         | _ \<Rightarrow> False))"
proof -
  define r1 where "r1 = \<lparr> domain = ''localhost'', port = 443,
           certificates = mark_self_signed (walk self_signed_store (Some 0) {} []),
           isValid = False,
           isSelfSigned = single_self_signed (walk self_signed_store (Some 0) {} []),
           isGMSSL = None,
           error = Some ''SELF_SIGNED_CERT_IN_CHAIN'',
           protocol = Some ''TLSv1.3'',
           cipher = getCipher (socket_of self_signed_store),
           fallback = None, fallbackReason = None \<rparr>"
  define c1 where "c1 = (parseCertificate (self_signed_store 0))\<lparr> type := Some SelfSigned \<rparr>"
  have run1: "getCertificateChainWithFallback (net_up (socket_of self_signed_store)) exec_down
           ''localhost'' 443 10000 = Inr r1"
    using live_run [of self_signed_store exec_down "''localhost''" 443 10000]
    by (simp add: r1_def)
  have cn1: "commonName (certificate.subject c1) = commonName (certificate.issuer c1)"
    by (simp add: c1_def self_signed_store_def sample_commonName)
  have certs1: "certificates r1 = [c1]"
    using cn1 by (simp add: r1_def c1_def walk_self_signed_store mark_self_signed_Cons)
  define r2 where "r2 = \<lparr> domain = ''a.example.com'', port = 443,
           certificates = mark_self_signed (walk lone_leaf_store (Some 0) {} []),
           isValid = False,
           isSelfSigned = single_self_signed (walk lone_leaf_store (Some 0) {} []),
           isGMSSL = None,
           error = Some ''SELF_SIGNED_CERT_IN_CHAIN'',
           protocol = Some ''TLSv1.3'',
           cipher = getCipher (socket_of lone_leaf_store),
           fallback = None, fallbackReason = None \<rparr>"
  define c2 where "c2 = (parseCertificate (lone_leaf_store 0))\<lparr> type := Some Leaf \<rparr>"
  have run2: "getCertificateChainWithFallback (net_up (socket_of lone_leaf_store)) exec_down
           ''a.example.com'' 443 10000 = Inr r2"
    using live_run [of lone_leaf_store exec_down "''a.example.com''" 443 10000]
    by (simp add: r2_def)
  have cn2: "commonName (certificate.subject c2) \<noteq> commonName (certificate.issuer c2)"
    by (simp add: c2_def lone_leaf_store_def sample_commonName)
  have certs2: "certificates r2 = [c2]"
    using cn2 by (simp add: r2_def c2_def walk_lone_leaf_store mark_self_signed_Cons)
  show ?thesis
    using single_certificate_self_signed [OF run1 certs1]
      single_certificate_self_signed [OF run2 certs2] cn1 cn2
    by (simp add: run1 certs1 run2 certs2)
qed

subsection \<open>Chain positions and the national-cryptography flag\<close>

lemma surviving_exec_two: "surviving exec_two two_blocks =
   [parsePEMCertificate_text ''Subject: CN = a.example.com'',
    parsePEMCertificate_text ''Subject: CN = Example CA'']"
proof -
  have "pem_b \<noteq> pem_a" by (simp add: pem_a_def pem_b_def)
  then show ?thesis
    by (simp add: surviving_def match_two_blocks parsePEMCertificate_def exec_two_def
        List.map_filter_simps)
qed

lemma surviving_decoder_timeout: "surviving exec_decoder_timeout out = []"
proof -
  have "List.map_filter (\<lambda>c. c) (map (parsePEMCertificate exec_decoder_timeout) xs) = []" for xs
    by (induction xs)
       (simp_all add: List.map_filter_simps parsePEMCertificate_def exec_decoder_timeout_def)
  then show ?thesis by (simp add: surviving_def)
qed

lemma includes_two_blocks: "includes_str two_blocks ''BEGIN CERTIFICATE''"
  by code_simp

lemma fallback_run_two_blocks:
  assumes "exec (SClientNTLS host portno) = Inr \<lparr> code = Some 0, stdout = two_blocks, stderr = [] \<rparr>"
  shows "getCertificateChainWithFallback net_down exec host portno timeout =
     Inr ((parseOpenSSLOutput exec two_blocks [] host portno)
            \<lparr> fallback := Some True, fallbackReason := Some (message ConnectFailed) \<rparr>)"
proof -
  have "tryConnect net_down host portno timeout 0 = Inl ConnectFailed"
    by (simp add: tryConnect.simps net_down_def TLS_CONFIGS_def)
  then have "getCertificateChain net_down host portno timeout = Inl ConnectFailed"
    by (simp add: getCertificateChain_def)
  moreover have "getGMCertificateChain exec host portno =
      Inr (parseOpenSSLOutput exec two_blocks [] host portno)"
    using assms by (simp add: getGMCertificateChain_def includes_two_blocks)
  ultimately show ?thesis by (simp add: getCertificateChainWithFallback_def)
qed

text \<open>
  C6 (as amended). A result of the session path has a certificate chain that is not
  empty. In every result with a chain that is not empty, from either path: if the chain is
  self-signed it is a single entry typed self-signed; otherwise exactly one entry is
  typed leaf, and it is the first. On the toolkit path, when at least two blocks survive
  the decoding, the chain is the surviving blocks in their order, the first typed leaf,
  the last typed root and the others typed intermediate. (The toolkit path can also
  return an empty chain; nothing is said about its entries.)
\<close>

theorem chain_positions:
  "(getCertificateChain connect host portno timeout = Inr r \<longrightarrow> certificates r \<noteq> [])
   \<and> (getCertificateChainWithFallback connect exec host portno timeout = Inr r
        \<and> certificates r \<noteq> [] \<longrightarrow>
        (if isSelfSigned r
         then \<exists>c. certificates r = [c] \<and> type c = Some SelfSigned
         else length (filter (\<lambda>c. type c = Some Leaf) (certificates r)) = 1
              \<and> type (hd (certificates r)) = Some Leaf))
   \<and> (2 \<le> length (surviving exec out) \<longrightarrow>
        (let cs = certificates (parseOpenSSLOutput exec out err host portno)
         in length cs = length (surviving exec out)
            \<and> (\<forall>i<length cs. cs ! i = (surviving exec out ! i)
                  \<lparr> type := Some (if i = 0 then Leaf
                                   else if i + 1 = length cs then Root
                                   else Intermediate) \<rparr>)))"
proof (intro conjI impI)
  assume "getCertificateChain connect host portno timeout = Inr r"
  from live_result_chain [OF this] obtain l rest where
    "certificates r = mark_self_signed (l # rest)" by blast
  then show "certificates r \<noteq> []" by (simp add: mark_self_signed_Cons)
next
  assume a: "getCertificateChainWithFallback connect exec host portno timeout = Inr r
    \<and> certificates r \<noteq> []"
  with result_chain [of connect exec host portno timeout r] obtain cs where
    cs: "certificates r = mark_self_signed cs" "isSelfSigned r = single_self_signed cs"
      "cs = [] \<or> (\<exists>l rest. cs = l # rest \<and> type l = Some Leaf \<and> list_all inner_position rest)"
    by blast
  from a cs(1) have "cs \<noteq> []" by (auto simp: mark_self_signed_Nil)
  with cs(3) obtain l rest where l: "cs = l # rest" "type l = Some Leaf"
    "list_all inner_position rest" by blast
  show "if isSelfSigned r
         then \<exists>c. certificates r = [c] \<and> type c = Some SelfSigned
         else length (filter (\<lambda>c. type c = Some Leaf) (certificates r)) = 1
              \<and> type (hd (certificates r)) = Some Leaf"
  proof (cases "isSelfSigned r")
    case True
    with cs l show ?thesis
      by (simp add: single_self_signed_Cons mark_self_signed_Cons)
  next
    case False
    with cs l have "certificates r = l # rest"
      by (auto simp: single_self_signed_Cons mark_self_signed_Cons)
    with False l show ?thesis by (simp add: filter_leaf_inner)
  qed
next
  assume two: "2 \<le> length (surviving exec out)"
  define kept where "kept = surviving exec out"
  define cs where "cs = certificates (parseOpenSSLOutput exec out err host portno)"
  have len: "length (set_positions kept) = length kept" by (rule length_set_positions)
  from two have "\<not> single_self_signed (set_positions kept)"
    using len by (cases "set_positions kept") (auto simp: single_self_signed_Cons kept_def)
  then have cs_eq: "cs = set_positions kept"
    using text_result_chain [of exec out err host portno]
    by (simp add: cs_def kept_def mark_self_signed_def)
  have "cs ! i = (kept ! i)\<lparr> type := Some (if i = 0 then Leaf
                                   else if i + 1 = length cs then Root
                                   else Intermediate) \<rparr>" if "i < length cs" for i
  proof -
    from that have "i < length kept" by (simp add: cs_eq len)
    then have "cs ! i = (kept ! i)\<lparr> type := Some (position_at (length kept) i) \<rparr>"
      unfolding cs_eq by (rule nth_set_positions)
    moreover have "position_at (length kept) i =
        (if i = 0 then Leaf else if i + 1 = length cs then Root else Intermediate)"
      using that by (auto simp: position_at_def cs_eq len)
    ultimately show ?thesis by simp
  qed
  then show "let cs = certificates (parseOpenSSLOutput exec out err host portno)
         in length cs = length (surviving exec out)
            \<and> (\<forall>i<length cs. cs ! i = (surviving exec out ! i)
                  \<lparr> type := Some (if i = 0 then Leaf
                                   else if i + 1 = length cs then Root
                                   else Intermediate) \<rparr>)"
    using cs_eq len by (simp add: Let_def cs_def [symmetric] kept_def [symmetric])
qed

text \<open>
  C6 (as stated) fails: the native stack is down, the session client prints two blocks
  and the decoder runs into its timeout on each. Both blocks are dropped; the result is
  a chain that is not self-signed and has no entry typed leaf.
\<close>

theorem empty_chain_counterexample:
  "(case getCertificateChainWithFallback net_down exec_decoder_timeout ''example.com'' 443 10000 of
      Inl e \<Rightarrow> False
    | Inr r \<Rightarrow> \<not> isSelfSigned r
               \<and> length (filter (\<lambda>c. type c = Some Leaf) (certificates r)) = 0)"
proof -
  have "getCertificateChainWithFallback net_down exec_decoder_timeout ''example.com'' 443 10000 =
     Inr ((parseOpenSSLOutput exec_decoder_timeout two_blocks [] ''example.com'' 443)
            \<lparr> fallback := Some True, fallbackReason := Some (message ConnectFailed) \<rparr>)"
    by (rule fallback_run_two_blocks) (simp add: exec_decoder_timeout_def)
  then show ?thesis
    using text_result_chain [of exec_decoder_timeout two_blocks "[]" "''example.com''" 443]
    by (simp add: surviving_decoder_timeout set_positions_Nil mark_self_signed_Nil
        single_self_signed_Nil)
qed


text \<open>
  The hypotheses of C6 hold on a session with a leaf and its root, on a session with one
  self-signed certificate, and on a toolkit output of two blocks.
\<close>

theorem chain_positions_witness:
  "(case getCertificateChainWithFallback (net_up (socket_of two_chain_store)) exec_down
           ''a.example.com'' 443 10000 of
      Inl e \<Rightarrow> False
    | Inr r \<Rightarrow> certificates r \<noteq> [] \<and> \<not> isSelfSigned r
               \<and> length (filter (\<lambda>c. type c = Some Leaf) (certificates r)) = 1
               \<and> type (hd (certificates r)) = Some Leaf)
   \<and> (case getCertificateChainWithFallback (net_up (socket_of self_signed_store)) exec_down
           ''localhost'' 443 10000 of
      Inl e \<Rightarrow> False
    | Inr r \<Rightarrow> certificates r \<noteq> [] \<and> isSelfSigned r
               \<and> map type (certificates r) = [Some SelfSigned])
   \<and> 2 \<le> length (surviving exec_two two_blocks)
   \<and> map type (certificates (parseOpenSSLOutput exec_two two_blocks [] ''example.com'' 443)) =
       [Some Leaf, Some Root]"
proof -
  define r1 where "r1 = \<lparr> domain = ''a.example.com'', port = 443,
           certificates = mark_self_signed (walk two_chain_store (Some 0) {} []),
           isValid = False,
           isSelfSigned = single_self_signed (walk two_chain_store (Some 0) {} []),
           isGMSSL = None,
           error = Some ''SELF_SIGNED_CERT_IN_CHAIN'',
           protocol = Some ''TLSv1.3'',
           cipher = getCipher (socket_of two_chain_store),
           fallback = None, fallbackReason = None \<rparr>"
  have run1: "getCertificateChainWithFallback (net_up (socket_of two_chain_store)) exec_down
           ''a.example.com'' 443 10000 = Inr r1"
    and live1: "getCertificateChain (net_up (socket_of two_chain_store))
           ''a.example.com'' 443 10000 = Inr r1"
    using live_run [of two_chain_store exec_down "''a.example.com''" 443 10000]
    by (simp_all add: r1_def)
  have not_self1: "\<not> isSelfSigned r1"
    by (simp add: r1_def walk_two_chain_store single_self_signed_Cons)
  note pos1 = chain_positions [of "net_up (socket_of two_chain_store)" "''a.example.com''" 443
      10000 r1 exec_down]
  from pos1 live1 have nonempty1: "certificates r1 \<noteq> []" by blast
  with pos1 run1 not_self1 have leaf1:
    "length (filter (\<lambda>c. type c = Some Leaf) (certificates r1)) = 1
     \<and> type (hd (certificates r1)) = Some Leaf"
    by simp
  define r2 where "r2 = \<lparr> domain = ''localhost'', port = 443,
           certificates = mark_self_signed (walk self_signed_store (Some 0) {} []),
           isValid = False,
           isSelfSigned = single_self_signed (walk self_signed_store (Some 0) {} []),
           isGMSSL = None,
           error = Some ''SELF_SIGNED_CERT_IN_CHAIN'',
           protocol = Some ''TLSv1.3'',
           cipher = getCipher (socket_of self_signed_store),
           fallback = None, fallbackReason = None \<rparr>"
  have run2: "getCertificateChainWithFallback (net_up (socket_of self_signed_store)) exec_down
           ''localhost'' 443 10000 = Inr r2"
    and live2: "getCertificateChain (net_up (socket_of self_signed_store))
           ''localhost'' 443 10000 = Inr r2"
    using live_run [of self_signed_store exec_down "''localhost''" 443 10000]
    by (simp_all add: r2_def)
  have self2: "isSelfSigned r2"
    by (simp add: r2_def walk_self_signed_store single_self_signed_Cons self_signed_store_def
        sample_commonName)
  note pos2 = chain_positions [of "net_up (socket_of self_signed_store)" "''localhost''" 443
      10000 r2 exec_down]
  from pos2 live2 have nonempty2: "certificates r2 \<noteq> []" by blast
  with pos2 run2 self2 have "\<exists>c. certificates r2 = [c] \<and> type c = Some SelfSigned"
    by simp
  then have types2: "map type (certificates r2) = [Some SelfSigned]" by auto
  have two: "2 \<le> length (surviving exec_two two_blocks)"
    by (simp add: surviving_exec_two)
  define cs where "cs = certificates (parseOpenSSLOutput exec_two two_blocks [] ''example.com'' 443)"
  from two chain_positions [of net_down "''example.com''" 443 10000 r1 exec_two two_blocks "[]"]
  have "length cs = 2" and nth: "\<forall>i<length cs. cs ! i = (surviving exec_two two_blocks ! i)
                  \<lparr> type := Some (if i = 0 then Leaf
                                   else if i + 1 = length cs then Root
                                   else Intermediate) \<rparr>"
    by (simp_all add: Let_def cs_def surviving_exec_two)
  then have "type (cs ! 0) = Some Leaf" "type (cs ! 1) = Some Root" by simp_all
  with \<open>length cs = 2\<close> have types3: "map type cs = [Some Leaf, Some Root]"
    by (cases cs; cases "tl cs") auto
  show ?thesis
    using nonempty1 not_self1 leaf1 nonempty2 self2 types2 two types3
    by (simp add: run1 run2 cs_def)
qed

lemma walk_sm2_store:
  "walk sm2_store (Some 0) {} [] = [(parseCertificate (sm2_store 0))\<lparr> type := Some Leaf \<rparr>]"
  by (simp add: walk.simps Let_def sm2_store_def sample_cert_def)

lemma sm2_store_key:
  "public_key.type (publicKey (parseCertificate (sm2_store 0))) = SM2"
  by (simp add: parseCertificate_def Let_def parsePublicKeyAlgorithm_def sm2_store_def
      sample_cert_def is_sm2_curve_def SM2_CURVES_def toLowerCase_def toLowerCase_char_def)

lemma list_ex_isGM_mark:
  "list_ex (\<lambda>c. isGM c = Some True) cs \<longleftrightarrow>
   (\<exists>c\<in>set (mark_self_signed cs). isGM c = Some True)"
proof -
  have "(\<exists>c\<in>set (mark_self_signed cs). isGM c = Some True)
      \<longleftrightarrow> Some True \<in> set (map isGM (mark_self_signed cs))"
    by force
  also have "\<dots> \<longleftrightarrow> Some True \<in> set (map isGM cs)" by (simp only: map_isGM_mark)
  also have "\<dots> \<longleftrightarrow> list_ex (\<lambda>c. isGM c = Some True) cs"
    unfolding list_ex_iff by force
  finally show ?thesis by simp
qed

lemma parsePEMCertificate_text_isGM: "\<exists>b. isGM (parsePEMCertificate_text text) = Some b"
  by (simp add: parsePEMCertificate_text_def Let_def)

lemma surviving_isGM:
  assumes "c \<in> set (surviving exec out)"
  shows "isGM c \<noteq> None"
proof -
  from assms obtain pem where "parsePEMCertificate exec pem = Some c"
    by (auto simp: surviving_def List.map_filter_def)
  then obtain dump where "c = parsePEMCertificate_text dump"
    by (auto simp: parsePEMCertificate_def split: sum.splits)
  with parsePEMCertificate_text_isGM [of dump] show ?thesis by auto
qed

lemma set_positions_isGM: "map isGM (set_positions kept) = map isGM kept"
  by (rule nth_equalityI) (simp_all add: length_set_positions nth_set_positions)

text \<open>
  C5 (as amended). A result of the session path has no \<open>isGMSSL\<close> field (and no
  \<open>fallback\<close> field), and its certificates have no \<open>isGM\<close> field. A result of the toolkit
  path has the field \<open>isGMSSL\<close>; it is true if and only if the error output of the session
  client mentions NTLS, GMTLS or GMSSL or some certificate of the chain is flagged
  \<open>isGM\<close>; each of its certificates has the \<open>isGM\<close> field. When the pipeline falls back,
  its result has \<open>isGMSSL\<close> and \<open>fallback\<close> set to true. So the two paths do not return
  the same set of fields.
\<close>

theorem isGMSSL_by_path:
  "(getCertificateChain connect host portno timeout = Inr r \<longrightarrow>
      isGMSSL r = None \<and> fallback r = None \<and> (\<forall>c\<in>set (certificates r). isGM c = None))
   \<and> isGMSSL (parseOpenSSLOutput exec out err host portno) =
       Some (includes_str err ''NTLS'' \<or> includes_str err ''GMTLS'' \<or> includes_str err ''GMSSL''
             \<or> (\<exists>c\<in>set (certificates (parseOpenSSLOutput exec out err host portno)).
                   isGM c = Some True))
   \<and> (\<forall>c\<in>set (certificates (parseOpenSSLOutput exec out err host portno)). isGM c \<noteq> None)
   \<and> (getCertificateChain connect host portno timeout = Inl e
        \<and> getCertificateChainWithFallback connect exec host portno timeout = Inr r \<longrightarrow>
        isGMSSL r \<noteq> None \<and> fallback r = Some True)"
proof (intro conjI impI)
  assume "getCertificateChain connect host portno timeout = Inr r"
  from live_result_chain [OF this] obtain l rest where
    r: "certificates r = mark_self_signed (l # rest)" "isGM l = None"
      "list_all issuer_link rest" "isGMSSL r = None" "fallback r = None"
    by blast
  from r(2,3) have "\<forall>c\<in>set (l # rest). isGM c = None"
    by (auto simp: list_all_iff issuer_link_def)
  then have "\<forall>g\<in>set (map isGM (l # rest)). g = None" by simp
  then have "\<forall>g\<in>set (map isGM (mark_self_signed (l # rest))). g = None"
    by (simp only: map_isGM_mark)
  with r show "isGMSSL r = None" "fallback r = None" "\<forall>c\<in>set (certificates r). isGM c = None"
    by simp_all
next
  show "isGMSSL (parseOpenSSLOutput exec out err host portno) =
       Some (includes_str err ''NTLS'' \<or> includes_str err ''GMTLS'' \<or> includes_str err ''GMSSL''
             \<or> (\<exists>c\<in>set (certificates (parseOpenSSLOutput exec out err host portno)).
                   isGM c = Some True))"
    using list_ex_isGM_mark [of "set_positions (surviving exec out)"]
      text_result_chain [of exec out err host portno]
    by (auto simp: parseOpenSSLOutput_def Let_def surviving_def)
next
  have "\<forall>g\<in>set (map isGM (surviving exec out)). g \<noteq> None"
    using surviving_isGM by auto
  then have "\<forall>g\<in>set (map isGM (mark_self_signed (set_positions (surviving exec out)))). g \<noteq> None"
    by (simp only: map_isGM_mark set_positions_isGM)
  then show "\<forall>c\<in>set (certificates (parseOpenSSLOutput exec out err host portno)). isGM c \<noteq> None"
    using text_result_chain [of exec out err host portno] by simp
next
  assume a: "getCertificateChain connect host portno timeout = Inl e
        \<and> getCertificateChainWithFallback connect exec host portno timeout = Inr r"
  then obtain r0 where r0: "getGMCertificateChain exec host portno = Inr r0"
    and r: "r = r0\<lparr> fallback := Some True, fallbackReason := Some (message e) \<rparr>"
    by (auto simp: getCertificateChainWithFallback_def split: sum.splits)
  from fallback_result [OF r0] obtain out' err' where
    "r0 = parseOpenSSLOutput exec out' err' host portno" by blast
  with r show "isGMSSL r \<noteq> None" "fallback r = Some True"
    by (simp_all add: parseOpenSSLOutput_def Let_def)
qed

text \<open>
  C5 (as stated) fails: a session whose peer certificate has an SM2 key gives a result
  without the field \<open>isGMSSL\<close>, although its certificate is classified SM2.
\<close>

theorem live_isGMSSL_counterexample:
  "(case getCertificateChain (net_up (socket_of sm2_store)) ''sm2.example.cn'' 443 10000 of
      Inl e \<Rightarrow> False
    | Inr r \<Rightarrow> isGMSSL r = None
               \<and> map (\<lambda>c. public_key.type (publicKey c)) (certificates r) = [SM2])"
  using live_run [of sm2_store exec_down "''sm2.example.cn''" 443 10000]
  by (simp add: walk_sm2_store mark_self_signed_Cons sm2_store_key)

subsection \<open>The decoded text of a certificate\<close>

text \<open>
  What the text parser returns, field by field.
\<close>

lemma text_isGM:
  "isGM (parsePEMCertificate_text text) =
     Some (includes_str (toLowerCase (case match_word_after ''Public Key Algorithm:'' text of
                                         Some m \<Rightarrow> m | None \<Rightarrow> [])) ''sm2''
           \<or> includes_str (toLowerCase (case match_word_after ''ASN1 OID:'' text of
                                            Some m \<Rightarrow> m | None \<Rightarrow> [])) ''sm2''
           \<or> includes_str (toLowerCase text) ''sm2p256v1''
           \<or> includes_str (toLowerCase text) ''sm2-with-sm3'')"
  by (simp add: parsePEMCertificate_text_def Let_def)

lemma text_publicKey_gm:
  "isGM (parsePEMCertificate_text text) = Some True \<Longrightarrow>
   public_key.type (publicKey (parsePEMCertificate_text text)) = SM2
   \<and> public_key.bits (publicKey (parsePEMCertificate_text text)) = 256"
  by (simp add: parsePEMCertificate_text_def Let_def)

lemma text_publicKey_other:
  "isGM (parsePEMCertificate_text text) = Some False \<Longrightarrow>
   public_key.type (publicKey (parsePEMCertificate_text text)) =
     (if includes_str (case match_word_after ''Public Key Algorithm:'' text of
                         Some m \<Rightarrow> m | None \<Rightarrow> []) ''EC''
         \<or> includes_str (toLowerCase (case match_word_after ''Public Key Algorithm:'' text of
                                         Some m \<Rightarrow> m | None \<Rightarrow> [])) ''ec''
      then ECC else RSA)
   \<and> public_key.bits (publicKey (parsePEMCertificate_text text)) =
     (case match_key_size text of Some ds \<Rightarrow> parseInt ds | None \<Rightarrow> 2048)"
  by (simp add: parsePEMCertificate_text_def Let_def)

lemma text_validationLevel:
  "validationLevel (parsePEMCertificate_text text) =
     (if truthy (organization (certificate.subject (parsePEMCertificate_text text)))
      then OV else DV)"
  by (simp add: parsePEMCertificate_text_def Let_def)

lemma text_subject:
  "certificate.subject (parsePEMCertificate_text text) =
     (case match_line_after ''Subject:'' text of
        Some m \<Rightarrow> parseDNFromText m | None \<Rightarrow> unknown_dn)"
  by (simp add: parsePEMCertificate_text_def Let_def)



lemma match_pem_block: "match_certs pem_block = [pem_block]"
  by code_simp

lemma surviving_exec_one: "surviving (exec_one dump) pem_block = [parsePEMCertificate_text dump]"
  by (simp add: surviving_def match_pem_block parsePEMCertificate_def exec_one_def
      List.map_filter_simps)

lemma fallback_run_one:
  "getGMCertificateChain (exec_one dump) host portno =
     Inr (parseOpenSSLOutput (exec_one dump) pem_block [] host portno)"
  by (simp add: getGMCertificateChain_def exec_one_def pem_block_def BEGIN_CERTIFICATE_def)

lemma surviving_member:
  assumes "pem \<in> set (match_certs out)" and "exec (X509Text pem) = Inr res"
  shows "parsePEMCertificate_text (stdout res @ stderr res) \<in> set (surviving exec out)"
proof -
  from assms(2) have "parsePEMCertificate exec pem =
      Some (parsePEMCertificate_text (stdout res @ stderr res))"
    by (simp add: parsePEMCertificate_def)
  with assms(1) show ?thesis
    by (force simp: surviving_def List.map_filter_def)
qed

lemma text_isGMSSL:
  "isGMSSL (parseOpenSSLOutput exec out err host portno) =
     Some (includes_str err ''NTLS'' \<or> includes_str err ''GMTLS'' \<or> includes_str err ''GMSSL''
           \<or> Some True \<in> set (map isGM (surviving exec out)))"
proof -
  have "list_ex (\<lambda>c. isGM c = Some True) (set_positions (surviving exec out))
      \<longleftrightarrow> Some True \<in> set (map isGM (set_positions (surviving exec out)))"
    unfolding list_ex_iff by force
  then show ?thesis
    by (auto simp: parseOpenSSLOutput_def Let_def surviving_def set_positions_isGM)
qed

text \<open>
  C10: on the toolkit path the whole decoded dump of a certificate (standard output
  followed by standard error of the decoder) is searched, in lower case, for
  \<open>sm2p256v1\<close> and \<open>sm2-with-sm3\<close>. If one of them occurs anywhere in the dump of a
  block of the session client's output, as written or in another letter case, the
  certificate is kept, its public key is classified SM2 with 256 bits, its \<open>isGM\<close> flag
  is true, and \<open>isGMSSL\<close> of the result is true.
\<close>

theorem sm2_text_forces_gm:
  assumes "pem \<in> set (match_certs out)"
    and "exec (X509Text pem) = Inr res"
    and "includes_str (stdout res @ stderr res) ''sm2p256v1''
         \<or> includes_str (stdout res @ stderr res) ''sm2-with-sm3''
         \<or> includes_str (toLowerCase (stdout res @ stderr res)) ''sm2p256v1''
         \<or> includes_str (toLowerCase (stdout res @ stderr res)) ''sm2-with-sm3''"
  shows "parsePEMCertificate exec pem =
           Some (parsePEMCertificate_text (stdout res @ stderr res))
       \<and> public_key.type (publicKey (parsePEMCertificate_text (stdout res @ stderr res))) = SM2
       \<and> public_key.bits (publicKey (parsePEMCertificate_text (stdout res @ stderr res))) = 256
       \<and> isGM (parsePEMCertificate_text (stdout res @ stderr res)) = Some True
       \<and> isGMSSL (parseOpenSSLOutput exec out err host portno) = Some True"
proof -
  define c where "c = parsePEMCertificate_text (stdout res @ stderr res)"
  have "toLowerCase ''sm2p256v1'' = ''sm2p256v1''"
    "toLowerCase ''sm2-with-sm3'' = ''sm2-with-sm3''"
    by (simp_all add: toLowerCase_def toLowerCase_char_def)
  with assms(3) includes_str_toLowerCase [of "stdout res @ stderr res" "''sm2p256v1''"]
    includes_str_toLowerCase [of "stdout res @ stderr res" "''sm2-with-sm3''"]
  have "includes_str (toLowerCase (stdout res @ stderr res)) ''sm2p256v1''
      \<or> includes_str (toLowerCase (stdout res @ stderr res)) ''sm2-with-sm3''"
    by auto
  then have gm: "isGM c = Some True"
    unfolding c_def by (auto simp: text_isGM)
  then have key: "public_key.type (publicKey c) = SM2 \<and> public_key.bits (publicKey c) = 256"
    unfolding c_def by (rule text_publicKey_gm)
  from assms(2) have parsed: "parsePEMCertificate exec pem = Some c"
    by (simp add: parsePEMCertificate_def c_def)
  have "c \<in> set (surviving exec out)"
    unfolding c_def using assms(1,2) by (rule surviving_member)
  with gm have "Some True \<in> set (map isGM (surviving exec out))" by force
  then have "isGMSSL (parseOpenSSLOutput exec out err host portno) = Some True"
    by (simp add: text_isGMSSL)
  with gm key parsed show ?thesis by (simp add: c_def)
qed

lemma gm_signed_dump_sig: "includes_str (toLowerCase gm_signed_dump) ''sm2-with-sm3''"
  by code_simp

lemma gm_signed_dump_algo:
  "match_word_after ''Public Key Algorithm:'' gm_signed_dump = Some ''rsaEncryption''"
  by code_simp

text \<open>
  The hypotheses of C10 hold on the example of the claim: a certificate with an RSA key
  whose only mention of the national algorithms is its signature-algorithm line.
\<close>

theorem sm2_text_forces_gm_witness:
  "pem_block \<in> set (match_certs pem_block)
   \<and> includes_str (toLowerCase gm_signed_dump) ''sm2-with-sm3''
   \<and> match_word_after ''Public Key Algorithm:'' gm_signed_dump = Some ''rsaEncryption''
   \<and> public_key.type (publicKey (parsePEMCertificate_text gm_signed_dump)) = SM2
   \<and> public_key.bits (publicKey (parsePEMCertificate_text gm_signed_dump)) = 256
   \<and> isGM (parsePEMCertificate_text gm_signed_dump) = Some True
   \<and> isGMSSL (parseOpenSSLOutput (exec_one gm_signed_dump) pem_block [] ''rsa.example.cn'' 443)
       = Some True"
proof -
  have member: "pem_block \<in> set (match_certs pem_block)" by (simp add: match_pem_block)
  have run: "exec_one gm_signed_dump (X509Text pem_block) =
      Inr \<lparr> code = Some 0, stdout = gm_signed_dump, stderr = [] \<rparr>"
    by (simp add: exec_one_def)
  show ?thesis
    using sm2_text_forces_gm [where exec = "exec_one gm_signed_dump" and pem = pem_block
        and out = pem_block and err = "[]" and host = "''rsa.example.cn''" and portno = 443
        and res = "\<lparr> code = Some 0, stdout = gm_signed_dump, stderr = [] \<rparr>"]
      member run gm_signed_dump_sig gm_signed_dump_algo
    by simp
qed

lemma rsa_dump_isGM: "isGM (parsePEMCertificate_text rsa_dump) = Some False"
proof -
  have "match_word_after ''Public Key Algorithm:'' rsa_dump = Some ''rsaEncryption''"
    by code_simp
  moreover have "match_word_after ''ASN1 OID:'' rsa_dump = None" by code_simp
  moreover have "\<not> includes_str (toLowerCase rsa_dump) ''sm2p256v1''" by code_simp
  moreover have "\<not> includes_str (toLowerCase rsa_dump) ''sm2-with-sm3''" by code_simp
  moreover have "\<not> includes_str (toLowerCase ''rsaEncryption'') ''sm2''" by code_simp
  ultimately show ?thesis by (simp add: text_isGM toLowerCase_def)
qed

text \<open>
  The hypotheses of C5 hold on a session with two certificates and on the fallback to a
  toolkit that prints one block.
\<close>

theorem isGMSSL_by_path_witness:
  "(case getCertificateChain (net_up (socket_of two_chain_store)) ''a.example.com'' 443 10000 of
      Inl e \<Rightarrow> False
    | Inr r \<Rightarrow> isGMSSL r = None \<and> fallback r = None \<and> map isGM (certificates r) = [None, None])
   \<and> isGMSSL (parseOpenSSLOutput (exec_one gm_signed_dump) pem_block [] ''rsa.example.cn'' 443)
       = Some True
   \<and> isGMSSL (parseOpenSSLOutput (exec_one rsa_dump) pem_block [] ''rsa.example.com'' 443)
       = Some False
   \<and> getCertificateChain net_down ''rsa.example.cn'' 443 10000 = Inl ConnectFailed
   \<and> (case getCertificateChainWithFallback net_down (exec_one gm_signed_dump)
            ''rsa.example.cn'' 443 10000 of
        Inl e \<Rightarrow> False
      | Inr r \<Rightarrow> isGMSSL r = Some True \<and> fallback r = Some True)"
proof -
  define r1 where "r1 = \<lparr> domain = ''a.example.com'', port = 443,
           certificates = mark_self_signed (walk two_chain_store (Some 0) {} []),
           isValid = False,
           isSelfSigned = single_self_signed (walk two_chain_store (Some 0) {} []),
           isGMSSL = None,
           error = Some ''SELF_SIGNED_CERT_IN_CHAIN'',
           protocol = Some ''TLSv1.3'',
           cipher = getCipher (socket_of two_chain_store),
           fallback = None, fallbackReason = None \<rparr>"
  have live1: "getCertificateChain (net_up (socket_of two_chain_store))
           ''a.example.com'' 443 10000 = Inr r1"
    using live_run [of two_chain_store exec_down "''a.example.com''" 443 10000]
    by (simp add: r1_def)
  have len1: "length (certificates r1) = 2"
    by (simp add: r1_def length_mark walk_two_chain_store)
  from isGMSSL_by_path [of "net_up (socket_of two_chain_store)" "''a.example.com''" 443 10000 r1]
    live1
  have p1: "isGMSSL r1 = None" "fallback r1 = None" "\<forall>c\<in>set (certificates r1). isGM c = None"
    by simp_all
  from p1(3) len1 have gm1: "map isGM (certificates r1) = [None, None]"
    by (cases "certificates r1"; cases "tl (certificates r1)") auto
  define r2 where "r2 = parseOpenSSLOutput (exec_one gm_signed_dump) pem_block []
      ''rsa.example.cn'' 443"
  have certs2: "map isGM (certificates r2) = [Some True]"
    using text_result_chain [of "exec_one gm_signed_dump" pem_block "[]" "''rsa.example.cn''" 443]
      map_isGM_mark [of "set_positions (surviving (exec_one gm_signed_dump) pem_block)"]
    by (simp add: r2_def set_positions_isGM surviving_exec_one text_isGM gm_signed_dump_sig)
  then have "\<exists>c\<in>set (certificates r2). isGM c = Some True" by force
  with isGMSSL_by_path [of net_down "''rsa.example.cn''" 443 10000 r1 "exec_one gm_signed_dump"
      pem_block "[]"]
  have p2: "isGMSSL r2 = Some True" by (simp add: r2_def)
  define r3 where "r3 = parseOpenSSLOutput (exec_one rsa_dump) pem_block []
      ''rsa.example.com'' 443"
  have certs3: "map isGM (certificates r3) = [Some False]"
    using text_result_chain [of "exec_one rsa_dump" pem_block "[]" "''rsa.example.com''" 443]
      map_isGM_mark [of "set_positions (surviving (exec_one rsa_dump) pem_block)"]
    by (simp add: r3_def set_positions_isGM surviving_exec_one rsa_dump_isGM)
  then have "\<not> (\<exists>c\<in>set (certificates r3). isGM c = Some True)"
    by (cases "certificates r3") auto
  with isGMSSL_by_path [of net_down "''rsa.example.com''" 443 10000 r1 "exec_one rsa_dump"
      pem_block "[]"]
  have p3: "isGMSSL r3 = Some False" by (simp add: r3_def)
  have down: "getCertificateChain net_down ''rsa.example.cn'' 443 10000 = Inl ConnectFailed"
    by (simp add: getCertificateChain_def tryConnect.simps net_down_def TLS_CONFIGS_def)
  have run4: "getCertificateChainWithFallback net_down (exec_one gm_signed_dump)
            ''rsa.example.cn'' 443 10000 =
      Inr (r2\<lparr> fallback := Some True, fallbackReason := Some (message ConnectFailed) \<rparr>)"
    using down by (simp add: getCertificateChainWithFallback_def fallback_run_one r2_def)
  from isGMSSL_by_path [of net_down "''rsa.example.cn''" 443 10000
      "r2\<lparr> fallback := Some True, fallbackReason := Some (message ConnectFailed) \<rparr>"
      "exec_one gm_signed_dump" pem_block "[]" ConnectFailed] down run4
  have p4: "fallback (r2\<lparr> fallback := Some True,
      fallbackReason := Some (message ConnectFailed) \<rparr>) = Some True"
    by blast
  show ?thesis
    using p1(1,2) gm1 p2 p3 down p4
    by (simp add: live1 run4 r2_def [symmetric] r3_def [symmetric])
qed

subsection \<open>Validation level\<close>

lemma has_ev_oid_sublist:
  "list_ex (\<lambda>oid. includes_str str oid) EV_OIDS \<longleftrightarrow> (\<exists>oid\<in>set EV_OIDS. sublist oid str)"
  by (simp add: list_ex_iff includes_str_sublist)

lemma parseCertificate_validationLevel:
  "validationLevel (parseCertificate cert) = parseValidationLevel cert"
  by (simp add: parseCertificate_def Let_def)

lemma level_cases: "(lv = EV \<longleftrightarrow> a) \<and> (lv = OV \<longleftrightarrow> \<not> a \<and> b) \<and> (lv = DV \<longleftrightarrow> \<not> a \<and> \<not> b)"
  if "lv = (if a then EV else if b then OV else DV)"
  using that by auto

text \<open>
  C3 (as amended). On the session path the level is EV if and only if one of the known
  EV policy identifiers occurs in the JSON text of the certificate's \<open>infoAccess\<close> data,
  or the subject has organisation, locality, state or province, and country together with
  a business category or a subject serial number; otherwise OV if and only if the subject
  has an organisation; otherwise DV. On the toolkit path the level is never EV: it is OV
  if and only if the parsed subject has an organisation that is not empty, and DV otherwise.
\<close>

theorem validation_level_by_path:
  "(peer_cert.subject cert = Some s \<longrightarrow>
      (let ev = ((\<exists>oid\<in>set EV_OIDS.
                    sublist oid (JSON_stringify (case infoAccess cert of
                                                   Some ia \<Rightarrow> ia | None \<Rightarrow> [])))
                 \<or> (truthy (attr_O s) \<and> truthy (attr_L s)
                     \<and> (truthy (attr_ST s) \<or> truthy (attr_S s)) \<and> truthy (attr_C s)
                     \<and> (truthy (attr_businessCategory s) \<or> truthy (attr_serialNumber s))));
           lv = validationLevel (parseCertificate cert)
       in (lv = EV \<longleftrightarrow> ev)
          \<and> (lv = OV \<longleftrightarrow> \<not> ev \<and> truthy (attr_O s))
          \<and> (lv = DV \<longleftrightarrow> \<not> ev \<and> \<not> truthy (attr_O s))))
   \<and> (let lv = validationLevel (parsePEMCertificate_text text);
           org = organization (certificate.subject (parsePEMCertificate_text text))
       in lv \<noteq> EV \<and> (lv = OV \<longleftrightarrow> truthy org) \<and> (lv = DV \<longleftrightarrow> \<not> truthy org))"
proof (intro conjI impI)
  assume s: "peer_cert.subject cert = Some s"
  define ev where "ev = ((\<exists>oid\<in>set EV_OIDS.
                    sublist oid (JSON_stringify (case infoAccess cert of
                                                   Some ia \<Rightarrow> ia | None \<Rightarrow> [])))
                 \<or> (truthy (attr_O s) \<and> truthy (attr_L s)
                     \<and> (truthy (attr_ST s) \<or> truthy (attr_S s)) \<and> truthy (attr_C s)
                     \<and> (truthy (attr_businessCategory s) \<or> truthy (attr_serialNumber s))))"
  have "validationLevel (parseCertificate cert) =
      (if ev then EV else if truthy (attr_O s) then OV else DV)"
    using s
    by (simp add: parseCertificate_validationLevel parseValidationLevel_def Let_def
        has_ev_oid_sublist ev_def)
  from level_cases [OF this] show "let ev = ((\<exists>oid\<in>set EV_OIDS.
                    sublist oid (JSON_stringify (case infoAccess cert of
                                                   Some ia \<Rightarrow> ia | None \<Rightarrow> [])))
                 \<or> (truthy (attr_O s) \<and> truthy (attr_L s)
                     \<and> (truthy (attr_ST s) \<or> truthy (attr_S s)) \<and> truthy (attr_C s)
                     \<and> (truthy (attr_businessCategory s) \<or> truthy (attr_serialNumber s))));
           lv = validationLevel (parseCertificate cert)
       in (lv = EV \<longleftrightarrow> ev)
          \<and> (lv = OV \<longleftrightarrow> \<not> ev \<and> truthy (attr_O s))
          \<and> (lv = DV \<longleftrightarrow> \<not> ev \<and> \<not> truthy (attr_O s))"
    unfolding Let_def ev_def by blast
next
  show "let lv = validationLevel (parsePEMCertificate_text text);
           org = organization (certificate.subject (parsePEMCertificate_text text))
       in lv \<noteq> EV \<and> (lv = OV \<longleftrightarrow> truthy org) \<and> (lv = DV \<longleftrightarrow> \<not> truthy org)"
    by (simp add: Let_def text_validationLevel)
qed

lemma no_oid_in_empty: "\<not> (\<exists>oid\<in>set EV_OIDS. sublist oid (JSON_stringify []))"
  unfolding has_ev_oid_sublist [symmetric] by code_simp

lemma oid_in_ev_oid_cert:
  "\<exists>oid\<in>set EV_OIDS. sublist oid (JSON_stringify
     [(''CA Issuers - URI'', [''http://ca.example/2.23.140.1.1/ca.crt'']),
      (''OCSP - URI'', [''http://ocsp.ca.example''])])"
  unfolding has_ev_oid_sublist [symmetric] by code_simp

lemma ev_dump_subject: "match_line_after ''Subject:'' ev_dump = Some ev_subject"
  by code_simp

lemma ev_subject_organization: "organization (parseDNFromText ev_subject) = Some ''Acme Corp''"
  by code_simp

lemma ev_dump_policy: "includes_str ev_dump ''2.23.140.1.1''"
  by code_simp

text \<open>
  The hypotheses of C3 hold on the examples of the specification for the session path
  (an organisation only: OV; no organisation: DV; a known EV identifier without the
  organisation attributes: EV), on a subject with the full organisation attributes, and
  on two dumps of the toolkit path.
\<close>

theorem validation_level_by_path_witness:
  "validationLevel (parseCertificate ov_cert) = OV
   \<and> validationLevel (parseCertificate dv_cert) = DV
   \<and> validationLevel (parseCertificate ev_oid_cert) = EV
   \<and> validationLevel (parseCertificate full_org_cert) = EV
   \<and> validationLevel (parsePEMCertificate_text ev_dump) = OV
   \<and> validationLevel (parsePEMCertificate_text rsa_dump) \<noteq> EV"
proof -
  have "peer_cert.subject ov_cert = Some ov_subject" "infoAccess ov_cert = None"
    "truthy (attr_O ov_subject)" "\<not> truthy (attr_L ov_subject)"
    by (simp_all add: ov_cert_def ov_subject_def sample_cert_def blank_name_def)
  with validation_level_by_path [of ov_cert ov_subject] no_oid_in_empty
  have 1: "validationLevel (parseCertificate ov_cert) = OV"
    by (simp add: Let_def)
  have "peer_cert.subject dv_cert = Some dv_subject" "infoAccess dv_cert = None"
    "\<not> truthy (attr_O dv_subject)"
    by (simp_all add: dv_cert_def dv_subject_def sample_cert_def blank_name_def)
  with validation_level_by_path [of dv_cert dv_subject] no_oid_in_empty
  have 2: "validationLevel (parseCertificate dv_cert) = DV"
    by (simp add: Let_def)
  have "peer_cert.subject ev_oid_cert = Some dv_subject"
    "infoAccess ev_oid_cert = Some [(''CA Issuers - URI'', [''http://ca.example/2.23.140.1.1/ca.crt'']),
                           (''OCSP - URI'', [''http://ocsp.ca.example''])]"
    by (simp_all add: ev_oid_cert_def dv_cert_def sample_cert_def)
  with validation_level_by_path [of ev_oid_cert dv_subject] oid_in_ev_oid_cert
  have 3: "validationLevel (parseCertificate ev_oid_cert) = EV"
    by (simp add: Let_def)
  have "peer_cert.subject full_org_cert = Some full_org_subject"
    "truthy (attr_O full_org_subject)" "truthy (attr_L full_org_subject)"
    "truthy (attr_ST full_org_subject)" "truthy (attr_C full_org_subject)"
    "truthy (attr_businessCategory full_org_subject)"
    by (simp_all add: full_org_cert_def full_org_subject_def)
  with validation_level_by_path [of full_org_cert full_org_subject]
  have 4: "validationLevel (parseCertificate full_org_cert) = EV"
    by (simp add: Let_def)
  have "truthy (organization (certificate.subject (parsePEMCertificate_text ev_dump)))"
    by (simp add: text_subject ev_dump_subject ev_subject_organization)
  with validation_level_by_path [of ov_cert ov_subject ev_dump]
  have 5: "validationLevel (parsePEMCertificate_text ev_dump) = OV"
    by (simp add: Let_def)
  from validation_level_by_path [of ov_cert ov_subject rsa_dump]
  have 6: "validationLevel (parsePEMCertificate_text rsa_dump) \<noteq> EV"
    by (simp add: Let_def)
  from 1 2 3 4 5 6 show ?thesis by simp
qed

text \<open>
  C3 (as stated) fails on the toolkit path: the dump of a certificate whose subject has
  all the organisation attributes and a business category, and which lists the EV policy
  \<open>2.23.140.1.1\<close>, is classified OV.
\<close>

theorem text_level_counterexample:
  "includes_str ev_dump ''2.23.140.1.1''
   \<and> match_line_after ''Subject:'' ev_dump = Some ev_subject
   \<and> validationLevel (parsePEMCertificate_text ev_dump) = OV"
  by (simp add: ev_dump_policy ev_dump_subject text_validationLevel text_subject
      ev_subject_organization)

subsection \<open>Key type\<close>

lemma parseCertificate_publicKey:
  "publicKey (parseCertificate cert) = parsePublicKeyAlgorithm cert"
  by (simp add: parseCertificate_def Let_def)

lemma is_sm2_curve_sublist:
  "is_sm2_curve crv \<longleftrightarrow> (\<exists>sm2\<in>set SM2_CURVES. sublist (toLowerCase sm2) (toLowerCase crv))"
  by (simp add: is_sm2_curve_def list_ex_iff includes_str_sublist)

lemma truthy_str_or: "truthy x \<longleftrightarrow> str_or x [] \<noteq> []"
  by (cases x) auto

text \<open>
  C4 (as amended). On the session path: a curve identifier that contains an SM2-family
  name (in any letter case) gives SM2 with 256 bits; any other curve identifier gives ECC,
  with the certificate's bit count or else the bits of the curve name; with no curve
  identifier, a modulus gives RSA with the certificate's bit count or else four bits per
  hexadecimal digit of the modulus; with neither, a raw public key of 32 or 44 bytes gives
  type ECC with algorithm Ed25519 and 256 bits; otherwise the type is Unknown, with the
  certificate's bit count or else 0. On the toolkit path the type is never Unknown: it is
  SM2 with 256 bits when the dump is flagged \<open>isGM\<close>; otherwise ECC when the name of the
  public-key algorithm contains \<open>EC\<close> in any letter case, else RSA, with the bit count
  of the \<open>Public-Key\<close> line or else 2048.
\<close>

theorem key_classification_by_path:
  "(let k = publicKey (parseCertificate cert) in
      (asn1Curve cert = Some crv \<and> crv \<noteq> [] \<longrightarrow>
         (if \<exists>sm2\<in>set SM2_CURVES. sublist (toLowerCase sm2) (toLowerCase crv)
          then public_key.type k = SM2 \<and> public_key.bits k = 256
          else public_key.type k = ECC
               \<and> public_key.bits k = num_or (peer_cert.bits cert) (curve_bits crv)))
      \<and> (\<not> truthy (asn1Curve cert) \<and> modulus cert = Some m \<and> m \<noteq> [] \<longrightarrow>
           public_key.type k = RSA
           \<and> public_key.bits k = num_or (peer_cert.bits cert) (length m * 4))
      \<and> (\<not> truthy (asn1Curve cert) \<and> \<not> truthy (modulus cert) \<and> pubkey cert = Some key
          \<and> (length key = 32 \<or> length key = 44) \<longrightarrow>
           public_key.type k = ECC \<and> algorithm k = ''Ed25519'' \<and> public_key.bits k = 256)
      \<and> (\<not> truthy (asn1Curve cert) \<and> \<not> truthy (modulus cert)
          \<and> (pubkey cert = None
              \<or> pubkey cert = Some key \<and> length key \<noteq> 32 \<and> length key \<noteq> 44) \<longrightarrow>
           public_key.type k = Unknown \<and> public_key.bits k = num_or (peer_cert.bits cert) 0))
   \<and> (let t = publicKey (parsePEMCertificate_text text);
           algo = (case match_word_after ''Public Key Algorithm:'' text of
                     Some w \<Rightarrow> w | None \<Rightarrow> [])
       in public_key.type t \<noteq> Unknown
          \<and> (isGM (parsePEMCertificate_text text) = Some True \<longrightarrow>
               public_key.type t = SM2 \<and> public_key.bits t = 256)
          \<and> (isGM (parsePEMCertificate_text text) = Some False \<longrightarrow>
               public_key.type t =
                 (if includes_str algo ''EC'' \<or> includes_str (toLowerCase algo) ''ec''
                  then ECC else RSA)
               \<and> public_key.bits t =
                 (case match_key_size text of Some ds \<Rightarrow> parseInt ds | None \<Rightarrow> 2048)))"
proof -
  have live1: "asn1Curve cert = Some crv \<and> crv \<noteq> [] \<Longrightarrow>
      (if \<exists>sm2\<in>set SM2_CURVES. sublist (toLowerCase sm2) (toLowerCase crv)
       then public_key.type (parsePublicKeyAlgorithm cert) = SM2
            \<and> public_key.bits (parsePublicKeyAlgorithm cert) = 256
       else public_key.type (parsePublicKeyAlgorithm cert) = ECC
            \<and> public_key.bits (parsePublicKeyAlgorithm cert) =
                num_or (peer_cert.bits cert) (curve_bits crv))"
    by (simp add: parsePublicKeyAlgorithm_def Let_def is_sm2_curve_sublist)
  have live2: "\<not> truthy (asn1Curve cert) \<and> modulus cert = Some m \<and> m \<noteq> [] \<Longrightarrow>
      public_key.type (parsePublicKeyAlgorithm cert) = RSA
      \<and> public_key.bits (parsePublicKeyAlgorithm cert) =
          num_or (peer_cert.bits cert) (length m * 4)"
    by (simp add: parsePublicKeyAlgorithm_def Let_def truthy_str_or)
  have live3: "\<not> truthy (asn1Curve cert) \<and> \<not> truthy (modulus cert) \<and> pubkey cert = Some key
          \<and> (length key = 32 \<or> length key = 44) \<Longrightarrow>
      public_key.type (parsePublicKeyAlgorithm cert) = ECC
      \<and> algorithm (parsePublicKeyAlgorithm cert) = ''Ed25519''
      \<and> public_key.bits (parsePublicKeyAlgorithm cert) = 256"
    by (auto simp: parsePublicKeyAlgorithm_def Let_def truthy_str_or)
  have live4: "\<not> truthy (asn1Curve cert) \<and> \<not> truthy (modulus cert)
          \<and> (pubkey cert = None
              \<or> pubkey cert = Some key \<and> length key \<noteq> 32 \<and> length key \<noteq> 44) \<Longrightarrow>
      public_key.type (parsePublicKeyAlgorithm cert) = Unknown
      \<and> public_key.bits (parsePublicKeyAlgorithm cert) = num_or (peer_cert.bits cert) 0"
    by (auto simp: parsePublicKeyAlgorithm_def Let_def truthy_str_or)
  have text0: "public_key.type (publicKey (parsePEMCertificate_text text)) \<noteq> Unknown"
    by (simp add: parsePEMCertificate_text_def Let_def)
  show ?thesis
    unfolding Let_def parseCertificate_publicKey
    using live1 live2 live3 live4 text0 text_publicKey_gm [of "text"]
      text_publicKey_other [of "text"]
    by blast
qed


lemma ec_dump_isGM: "isGM (parsePEMCertificate_text ec_dump) = Some False"
  unfolding text_isGM by code_simp

lemma ec_dump_algo:
  "match_word_after ''Public Key Algorithm:'' ec_dump = Some ''id-ecPublicKey''"
  by code_simp

lemma ec_dump_size: "match_key_size ec_dump = Some ''384''"
  by code_simp

lemma ed25519_dump_isGM: "isGM (parsePEMCertificate_text ed25519_dump) = Some False"
  unfolding text_isGM by code_simp

lemma ed25519_dump_algo:
  "match_word_after ''Public Key Algorithm:'' ed25519_dump = Some ''ED25519''"
  by code_simp

lemma ed25519_dump_size: "match_key_size ed25519_dump = None"
  by code_simp

lemma rsa_dump_algo:
  "match_word_after ''Public Key Algorithm:'' rsa_dump = Some ''rsaEncryption''"
  by code_simp

lemma rsa_dump_size: "match_key_size rsa_dump = Some ''2048''"
  by code_simp

lemma gm_signed_dump_isGM: "isGM (parsePEMCertificate_text gm_signed_dump) = Some True"
  by (simp add: text_isGM gm_signed_dump_sig)

lemma sm2_name: "\<exists>sm2\<in>set SM2_CURVES. sublist (toLowerCase sm2) (toLowerCase ''sm2p256v1'')"
  unfolding is_sm2_curve_sublist [symmetric] is_sm2_curve_def by code_simp

lemma prime256v1_name:
  "\<not> (\<exists>sm2\<in>set SM2_CURVES. sublist (toLowerCase sm2) (toLowerCase ''prime256v1''))"
  unfolding is_sm2_curve_sublist [symmetric] is_sm2_curve_def by code_simp

lemma prime256v1_bits: "curve_bits ''prime256v1'' = 256"
  by code_simp

text \<open>
  The cases of C4 on example certificates; a modulus of 512 hexadecimal digits (2048
  bits) gives RSA with 2048 bits, with and without the certificate's own bit count.
\<close>

theorem key_classification_by_path_witness:
  "public_key.type (publicKey (parseCertificate (sm2_store 0))) = SM2
   \<and> public_key.bits (publicKey (parseCertificate (sm2_store 0))) = 256
   \<and> public_key.type (publicKey (parseCertificate ec_cert)) = ECC
   \<and> public_key.bits (publicKey (parseCertificate ec_cert)) = 256
   \<and> modulus dv_cert = Some (replicate 512 (CHR ''A''))
   \<and> public_key.type (publicKey (parseCertificate dv_cert)) = RSA
   \<and> public_key.bits (publicKey (parseCertificate dv_cert)) = 2048
   \<and> public_key.bits (publicKey (parseCertificate (dv_cert\<lparr> peer_cert.bits := None \<rparr>))) = 2048
   \<and> public_key.type (publicKey (parseCertificate ed25519_cert)) = ECC
   \<and> algorithm (publicKey (parseCertificate ed25519_cert)) = ''Ed25519''
   \<and> public_key.type (publicKey (parseCertificate keyless_cert)) = Unknown
   \<and> public_key.bits (publicKey (parseCertificate keyless_cert)) = 0
   \<and> public_key.type (publicKey (parsePEMCertificate_text gm_signed_dump)) = SM2
   \<and> public_key.type (publicKey (parsePEMCertificate_text rsa_dump)) = RSA
   \<and> public_key.bits (publicKey (parsePEMCertificate_text rsa_dump)) = 2048
   \<and> public_key.type (publicKey (parsePEMCertificate_text ec_dump)) = ECC
   \<and> public_key.bits (publicKey (parsePEMCertificate_text ec_dump)) = 384"
proof -
  note kc = key_classification_by_path [unfolded Let_def]
  have "asn1Curve (sm2_store 0) = Some ''sm2p256v1''"
    by (simp add: sm2_store_def sample_cert_def)
  with kc [of "sm2_store 0" "''sm2p256v1''"] sm2_name
  have 1: "public_key.type (publicKey (parseCertificate (sm2_store 0))) = SM2
     \<and> public_key.bits (publicKey (parseCertificate (sm2_store 0))) = 256"
    by simp
  have "asn1Curve ec_cert = Some ''prime256v1''" "peer_cert.bits ec_cert = Some 256"
    by (simp_all add: ec_cert_def dv_cert_def sample_cert_def)
  with kc [of ec_cert "''prime256v1''"] prime256v1_name
  have 2: "public_key.type (publicKey (parseCertificate ec_cert)) = ECC
     \<and> public_key.bits (publicKey (parseCertificate ec_cert)) = 256"
    by simp
  have dv: "asn1Curve dv_cert = None" "modulus dv_cert = Some (replicate 512 (CHR ''A''))"
    "peer_cert.bits dv_cert = Some 2048"
    by (simp_all add: dv_cert_def sample_cert_def)
  with kc [of dv_cert _ "replicate 512 (CHR ''A'')"]
  have 3: "public_key.type (publicKey (parseCertificate dv_cert)) = RSA
     \<and> public_key.bits (publicKey (parseCertificate dv_cert)) = 2048"
    by simp
  from dv kc [of "dv_cert\<lparr> peer_cert.bits := None \<rparr>" _ "replicate 512 (CHR ''A'')"]
  have 4: "public_key.bits (publicKey (parseCertificate (dv_cert\<lparr> peer_cert.bits := None \<rparr>)))
      = 2048"
    by simp
  have "asn1Curve ed25519_cert = None" "modulus ed25519_cert = None"
    "pubkey ed25519_cert = Some (replicate 32 0)"
    by (simp_all add: ed25519_cert_def dv_cert_def sample_cert_def)
  with kc [of ed25519_cert _ _ "replicate 32 0"]
  have 5: "public_key.type (publicKey (parseCertificate ed25519_cert)) = ECC
     \<and> algorithm (publicKey (parseCertificate ed25519_cert)) = ''Ed25519''"
    by simp
  have "asn1Curve keyless_cert = None" "modulus keyless_cert = None"
    "pubkey keyless_cert = None" "peer_cert.bits keyless_cert = None"
    by (simp_all add: keyless_cert_def dv_cert_def sample_cert_def)
  with kc [of keyless_cert]
  have 6: "public_key.type (publicKey (parseCertificate keyless_cert)) = Unknown
     \<and> public_key.bits (publicKey (parseCertificate keyless_cert)) = 0"
    by simp
  from kc [of dv_cert _ _ _ gm_signed_dump] gm_signed_dump_isGM
  have 7: "public_key.type (publicKey (parsePEMCertificate_text gm_signed_dump)) = SM2"
    by simp
  have "\<not> includes_str ''rsaEncryption'' ''EC''"
    "\<not> includes_str (toLowerCase ''rsaEncryption'') ''ec''"
    "parseInt ''2048'' = 2048"
    by code_simp+
  with kc [of dv_cert _ _ _ rsa_dump] rsa_dump_isGM rsa_dump_algo rsa_dump_size
  have 8: "public_key.type (publicKey (parsePEMCertificate_text rsa_dump)) = RSA
     \<and> public_key.bits (publicKey (parsePEMCertificate_text rsa_dump)) = 2048"
    by simp
  have "includes_str (toLowerCase ''id-ecPublicKey'') ''ec''" "parseInt ''384'' = 384"
    by code_simp+
  with kc [of dv_cert _ _ _ ec_dump] ec_dump_isGM ec_dump_algo ec_dump_size
  have 9: "public_key.type (publicKey (parsePEMCertificate_text ec_dump)) = ECC
     \<and> public_key.bits (publicKey (parsePEMCertificate_text ec_dump)) = 384"
    by simp
  from 1 2 dv(2) 3 4 5 6 7 8 9 show ?thesis by simp
qed

text \<open>
  C4 (as stated) fails: on the session path a certificate with the curve \<open>prime256v1\<close>
  (no SM2 identifier, no modulus) is classified ECC with 256 bits, not Unknown with 0; on
  the toolkit path the dump of an Ed25519 certificate is classified RSA with 2048 bits.
\<close>

theorem key_classification_counterexample:
  "asn1Curve ec_cert = Some ''prime256v1''
   \<and> public_key.type (publicKey (parseCertificate ec_cert)) = ECC
   \<and> public_key.bits (publicKey (parseCertificate ec_cert)) = 256
   \<and> match_word_after ''Public Key Algorithm:'' ed25519_dump = Some ''ED25519''
   \<and> public_key.type (publicKey (parsePEMCertificate_text ed25519_dump)) = RSA
   \<and> public_key.bits (publicKey (parsePEMCertificate_text ed25519_dump)) = 2048"
proof -
  have ec: "asn1Curve ec_cert = Some ''prime256v1''" "peer_cert.bits ec_cert = Some 256"
    by (simp_all add: ec_cert_def dv_cert_def sample_cert_def)
  have "is_sm2_curve ''prime256v1'' = False"
    using prime256v1_name by (simp add: is_sm2_curve_sublist)
  with ec have live: "public_key.type (publicKey (parseCertificate ec_cert)) = ECC
     \<and> public_key.bits (publicKey (parseCertificate ec_cert)) = 256"
    by (simp add: parseCertificate_publicKey parsePublicKeyAlgorithm_def Let_def)
  have "\<not> includes_str ''ED25519'' ''EC''" "\<not> includes_str (toLowerCase ''ED25519'') ''ec''"
    by code_simp+
  with text_publicKey_other [OF ed25519_dump_isGM] ed25519_dump_algo ed25519_dump_size
  have "public_key.type (publicKey (parsePEMCertificate_text ed25519_dump)) = RSA
     \<and> public_key.bits (publicKey (parsePEMCertificate_text ed25519_dump)) = 2048"
    by simp
  with ec(1) live ed25519_dump_algo show ?thesis by simp
qed

subsection \<open>Alternative names\<close>












lemma toLowerCase_append: "toLowerCase (a @ b) = toLowerCase a @ toLowerCase b"
  by (simp add: toLowerCase_def)















end
